theory Spec2Isabelle
  imports Main
begin

section \<open>Errors and diagnostics\<close>

text \<open>
  A Go \<open>error\<close> value. \<open>AwsErr code message\<close> is an error of the AWS SDK
  (\<open>awserr.Error\<close>: it has a code and a message), \<open>Wrapped prefix e\<close> is
  \<open>fmt.Errorf("prefix%w", e)\<close>, which keeps its cause \<open>e\<close> reachable for
  \<open>errors.As\<close>, \<open>TimeoutError last\<close> is the retry helper's
  \<open>*resource.TimeoutError\<close> with its \<open>LastError\<close>, and \<open>PlainErr\<close> is any other
  error. A nil \<open>error\<close> is \<open>None :: err option\<close>.
\<close>

datatype err =
    AwsErr string string
  | Wrapped string err
  | TimeoutError "err option"
  | PlainErr string

text \<open>
  \<open>err.Error()\<close>: the message of an error. An AWS error prints as "code: message";
  the text of a timeout is shortened, no statement depends on it.
\<close>

fun Error :: "err \<Rightarrow> string" where
  "Error (AwsErr code message) = code @ '': '' @ message"
| "Error (Wrapped prefix e) = prefix @ Error e"
| "Error (TimeoutError l) = ''timeout while waiting''"
| "Error (PlainErr m) = m"

text \<open>
  \<open>errors.As(err, &awsErr)\<close>: the first AWS error along the chain of causes. A
  wrapping error unwraps to its cause, a timeout error to its \<open>LastError\<close>.
\<close>

fun as_awserr :: "err \<Rightarrow> (string \<times> string) option" where
  "as_awserr (AwsErr code message) = Some (code, message)"
| "as_awserr (Wrapped prefix e) = as_awserr e"
| "as_awserr (TimeoutError None) = None"
| "as_awserr (TimeoutError (Some e)) = as_awserr e"
| "as_awserr (PlainErr m) = None"

text \<open>
  \<open>tfawserr.ErrCodeEquals(err, codes...)\<close>: \<open>err\<close> is (or wraps) an AWS error whose
  code is one of \<open>codes\<close>; false on a nil error.
\<close>

definition ErrCodeEquals :: "err option \<Rightarrow> string list \<Rightarrow> bool" where
  "ErrCodeEquals e codes =
     (case e of
        None \<Rightarrow> False
      | Some x \<Rightarrow> (case as_awserr x of
                    None \<Rightarrow> False
                  | Some (code, message) \<Rightarrow> code \<in> set codes))"

text \<open>\<open>strings.Contains(s, sub)\<close>.\<close>

fun is_prefix :: "string \<Rightarrow> string \<Rightarrow> bool" where
  "is_prefix [] s = True"
| "is_prefix (c # cs) [] = False"
| "is_prefix (c # cs) (x # xs) = (c = x \<and> is_prefix cs xs)"

fun Contains :: "string \<Rightarrow> string \<Rightarrow> bool" where
  "Contains [] sub = is_prefix sub []"
| "Contains (x # xs) sub = (is_prefix sub (x # xs) \<or> Contains xs sub)"

text \<open>
  \<open>tfawserr.ErrMessageContains(err, code, message)\<close>: an AWS error with this code whose
  message contains \<open>message\<close>.
\<close>

definition ErrMessageContains :: "err option \<Rightarrow> string \<Rightarrow> string \<Rightarrow> bool" where
  "ErrMessageContains e code message =
     (case e of
        None \<Rightarrow> False
      | Some x \<Rightarrow> (case as_awserr x of
                    None \<Rightarrow> False
                  | Some (c, m) \<Rightarrow> c = code \<and> Contains m message))"

text \<open>
  \<open>diag.Diagnostics\<close> is a list of diagnostics. The handlers of this development only
  ever append error diagnostics, through \<open>sdkdiag.AppendErrorf\<close> (a formatted message)
  and \<open>sdkdiag.AppendFromErr\<close> (the message of an error). A handler succeeded when the
  diagnostics it returns hold no error.
\<close>

datatype diagnostic = ErrorDiag string

type_synonym Diagnostics = "diagnostic list"

definition AppendErrorf :: "Diagnostics \<Rightarrow> string \<Rightarrow> Diagnostics" where
  "AppendErrorf diags message = diags @ [ErrorDiag message]"

definition AppendFromErr :: "Diagnostics \<Rightarrow> err \<Rightarrow> Diagnostics" where
  "AppendFromErr diags e = diags @ [ErrorDiag (Error e)]"

definition HasError :: "Diagnostics \<Rightarrow> bool" where
  "HasError diags = (diags \<noteq> [])"

text \<open>\<open>aws.StringValue\<close>: the string behind a pointer, the empty string for nil.\<close>

definition StringValue :: "string option \<Rightarrow> string" where
  "StringValue p = (case p of None \<Rightarrow> [] | Some s \<Rightarrow> s)"

section \<open>EC2: VPC endpoint / security group association\<close>

subsection \<open>The remote API\<close>

record SecurityGroupIdentifier =
  sgi_GroupId :: "string option"

record VpcEndpoint =
  VpcId :: "string option"
  Groups :: "SecurityGroupIdentifier list"

record SecurityGroup =
  GroupId :: "string option"

record ModifyVpcEndpointInput =
  VpcEndpointId :: string
  AddSecurityGroupIds :: "string list"
  RemoveSecurityGroupIds :: "string list"

text \<open>
  Every call that reaches the remote service is recorded, in order. The only mutating
  call of this resource is \<open>ModifyVpcEndpoint\<close>; the finders only read.
\<close>

datatype ec2_call =
    CallFindVPCEndpointByID string
  | CallFindVPCDefaultSecurityGroup string
  | CallFindVPCEndpointSecurityGroupAssociationExists string string
  | CallModifyVpcEndpoint ModifyVpcEndpointInput

fun is_mutation :: "ec2_call \<Rightarrow> bool" where
  "is_mutation (CallModifyVpcEndpoint i) = True"
| "is_mutation c = False"

definition mutations :: "ec2_call list \<Rightarrow> ec2_call list" where
  "mutations cs = filter is_mutation cs"

text \<open>
  The connection and the helpers of the package that live outside the files at hand are
  parameters: the remote service is a state machine over a world \<open>'w\<close>, each operation
  answers from the current world and moves it. \<open>CreateID\<close> is
  \<open>VPCEndpointSecurityGroupAssociationCreateID\<close>, \<open>NotFound\<close> is
  \<open>tfresource.NotFound\<close>, and the three strings are the package's error-code constants.
\<close>

record 'w ec2_env =
  FindVPCEndpointByID :: "string \<Rightarrow> 'w \<Rightarrow> (err + VpcEndpoint) \<times> 'w"
  FindVPCDefaultSecurityGroup :: "string \<Rightarrow> 'w \<Rightarrow> (err + SecurityGroup) \<times> 'w"
  FindVPCEndpointSecurityGroupAssociationExists :: "string \<Rightarrow> string \<Rightarrow> 'w \<Rightarrow> err option \<times> 'w"
  ModifyVpcEndpointWithContext :: "ModifyVpcEndpointInput \<Rightarrow> 'w \<Rightarrow> err option \<times> 'w"
  CreateID :: "string \<Rightarrow> string \<Rightarrow> string"
  NotFound :: "err option \<Rightarrow> bool"
  errCodeInvalidVPCEndpointIdNotFound :: string
  errCodeInvalidGroupNotFound :: string
  errCodeInvalidParameter :: string

record 'w ec2_state =
  calls :: "ec2_call list"
  world :: "'w"

definition callFindVPCEndpointByID ::
  "'w ec2_env \<Rightarrow> string \<Rightarrow> 'w ec2_state \<Rightarrow> (err + VpcEndpoint) \<times> 'w ec2_state" where
  "callFindVPCEndpointByID env vpcEndpointID s =
     (case FindVPCEndpointByID env vpcEndpointID (world s) of
        (r, w') \<Rightarrow> (r, \<lparr>calls = calls s @ [CallFindVPCEndpointByID vpcEndpointID], world = w'\<rparr>))"

definition callFindVPCDefaultSecurityGroup ::
  "'w ec2_env \<Rightarrow> string \<Rightarrow> 'w ec2_state \<Rightarrow> (err + SecurityGroup) \<times> 'w ec2_state" where
  "callFindVPCDefaultSecurityGroup env vpcID s =
     (case FindVPCDefaultSecurityGroup env vpcID (world s) of
        (r, w') \<Rightarrow> (r, \<lparr>calls = calls s @ [CallFindVPCDefaultSecurityGroup vpcID], world = w'\<rparr>))"

definition callFindVPCEndpointSecurityGroupAssociationExists ::
  "'w ec2_env \<Rightarrow> string \<Rightarrow> string \<Rightarrow> 'w ec2_state \<Rightarrow> err option \<times> 'w ec2_state" where
  "callFindVPCEndpointSecurityGroupAssociationExists env vpcEndpointID securityGroupID s =
     (case FindVPCEndpointSecurityGroupAssociationExists env vpcEndpointID securityGroupID (world s) of
        (r, w') \<Rightarrow>
          (r, \<lparr>calls = calls s @
                  [CallFindVPCEndpointSecurityGroupAssociationExists vpcEndpointID securityGroupID],
               world = w'\<rparr>))"

definition callModifyVpcEndpoint ::
  "'w ec2_env \<Rightarrow> ModifyVpcEndpointInput \<Rightarrow> 'w ec2_state \<Rightarrow> err option \<times> 'w ec2_state" where
  "callModifyVpcEndpoint env input s =
     (case ModifyVpcEndpointWithContext env input (world s) of
        (r, w') \<Rightarrow> (r, \<lparr>calls = calls s @ [CallModifyVpcEndpoint input], world = w'\<rparr>))"

subsection \<open>The resource data\<close>

text \<open>
  \<open>*schema.ResourceData\<close> of this resource: the identifier (\<open>d.Id()\<close>, set by
  \<open>d.SetId\<close>), the three attributes of the schema with their declared types, and
  \<open>d.IsNewResource()\<close>.
\<close>

record sga_data =
  sga_id :: string
  vpc_endpoint_id :: string
  security_group_id :: string
  replace_default_association :: bool
  sga_is_new :: bool

subsection \<open>The handlers\<close>

text \<open>\<open>createVPCEndpointSecurityGroupAssociation\<close>: one \<open>ModifyVpcEndpoint\<close> that adds the group.\<close>

definition createVPCEndpointSecurityGroupAssociation ::
  "'w ec2_env \<Rightarrow> string \<Rightarrow> string \<Rightarrow> 'w ec2_state \<Rightarrow> err option \<times> 'w ec2_state" where
  "createVPCEndpointSecurityGroupAssociation env vpcEndpointID securityGroupID s =
     (let input = \<lparr>VpcEndpointId = vpcEndpointID,
                    AddSecurityGroupIds = [securityGroupID],
                    RemoveSecurityGroupIds = []\<rparr>
      in case callModifyVpcEndpoint env input s of
           (Some e, s') \<Rightarrow>
             (Some (Wrapped (''creating VPC Endpoint ('' @ vpcEndpointID @ '') Security Group ('' @
                              securityGroupID @ '') Association: '') e), s')
         | (None, s') \<Rightarrow> (None, s'))"

text \<open>
  \<open>deleteVPCEndpointSecurityGroupAssociation\<close>: one \<open>ModifyVpcEndpoint\<close> that removes the
  group; the three not-found codes count as success.
\<close>

definition deleteVPCEndpointSecurityGroupAssociation ::
  "'w ec2_env \<Rightarrow> string \<Rightarrow> string \<Rightarrow> 'w ec2_state \<Rightarrow> err option \<times> 'w ec2_state" where
  "deleteVPCEndpointSecurityGroupAssociation env vpcEndpointID securityGroupID s =
     (let input = \<lparr>VpcEndpointId = vpcEndpointID,
                    AddSecurityGroupIds = [],
                    RemoveSecurityGroupIds = [securityGroupID]\<rparr>
      in case callModifyVpcEndpoint env input s of
           (e, s') \<Rightarrow>
             if ErrCodeEquals e [errCodeInvalidVPCEndpointIdNotFound env,
                                 errCodeInvalidGroupNotFound env,
                                 errCodeInvalidParameter env]
             then (None, s')
             else (case e of
                     Some x \<Rightarrow>
                       (Some (Wrapped (''deleting VPC Endpoint ('' @ vpcEndpointID @
                                        '') Security Group ('' @ securityGroupID @
                                        '') Association: '') x), s')
                   | None \<Rightarrow> (None, s')))"

text \<open>\<open>resourceVPCEndpointSecurityGroupAssociationRead\<close>.\<close>

definition resourceVPCEndpointSecurityGroupAssociationRead ::
  "'w ec2_env \<Rightarrow> sga_data \<Rightarrow> 'w ec2_state \<Rightarrow> Diagnostics \<times> sga_data \<times> 'w ec2_state" where
  "resourceVPCEndpointSecurityGroupAssociationRead env d s =
     (let diags = [];
          vpcEndpointID = vpc_endpoint_id d;
          securityGroupID = security_group_id d;
          ident = vpcEndpointID @ ''/'' @ securityGroupID
      in case callFindVPCEndpointSecurityGroupAssociationExists env vpcEndpointID securityGroupID s of
           (e, s') \<Rightarrow>
             if \<not> sga_is_new d \<and> NotFound env e then (diags, d\<lparr>sga_id := []\<rparr>, s')
             else (case e of
                     Some x \<Rightarrow>
                       (AppendErrorf diags (''reading VPC Security Group Association ('' @ ident @
                                            ''): '' @ Error x), d, s')
                   | None \<Rightarrow> (diags, d, s')))"

text \<open>
  The loop of create over \<open>vpcEndpoint.Groups\<close>: true as soon as a group's identifier is
  the default security group's.
\<close>

fun foundDefaultAssociation :: "SecurityGroupIdentifier list \<Rightarrow> string \<Rightarrow> bool" where
  "foundDefaultAssociation [] defaultSecurityGroupID = False"
| "foundDefaultAssociation (g # gs) defaultSecurityGroupID =
     (if StringValue (sgi_GroupId g) = defaultSecurityGroupID then True
      else foundDefaultAssociation gs defaultSecurityGroupID)"

text \<open>
  \<open>resourceVPCEndpointSecurityGroupAssociationCreate\<close>. Each early \<open>return\<close> of the
  source is a branch that yields the diagnostics, the resource data and the state
  reached so far. \<open>create_tail\<close> is the source after the validation block (the
  addition, \<open>d.SetId\<close>, the removal under replacement, the read), which both branches
  of \<open>if replaceDefaultAssociation\<close> reach: with the default group found, or with
  \<open>defaultSecurityGroupID\<close> still empty.
\<close>

definition create_tail ::
  "'w ec2_env \<Rightarrow> sga_data \<Rightarrow> string \<Rightarrow> 'w ec2_state \<Rightarrow> Diagnostics \<times> sga_data \<times> 'w ec2_state" where
  "create_tail env d defaultSecurityGroupID s =
     (let diags = [];
          vpcEndpointID = vpc_endpoint_id d;
          securityGroupID = security_group_id d;
          replaceDefaultAssociation = replace_default_association d
      in case createVPCEndpointSecurityGroupAssociation env vpcEndpointID securityGroupID s of
           (Some e, s1) \<Rightarrow> (AppendFromErr diags e, d, s1)
         | (None, s1) \<Rightarrow>
             (let d1 = d\<lparr>sga_id := CreateID env vpcEndpointID securityGroupID\<rparr>
              in if replaceDefaultAssociation
                 then (case deleteVPCEndpointSecurityGroupAssociation env vpcEndpointID
                              defaultSecurityGroupID s1 of
                         (Some e, s2) \<Rightarrow> (AppendFromErr diags e, d1, s2)
                       | (None, s2) \<Rightarrow>
                           (case resourceVPCEndpointSecurityGroupAssociationRead env d1 s2 of
                              (rdiags, d2, s3) \<Rightarrow> (diags @ rdiags, d2, s3)))
                 else (case resourceVPCEndpointSecurityGroupAssociationRead env d1 s1 of
                         (rdiags, d2, s3) \<Rightarrow> (diags @ rdiags, d2, s3))))"

definition resourceVPCEndpointSecurityGroupAssociationCreate ::
  "'w ec2_env \<Rightarrow> sga_data \<Rightarrow> 'w ec2_state \<Rightarrow> Diagnostics \<times> sga_data \<times> 'w ec2_state" where
  "resourceVPCEndpointSecurityGroupAssociationCreate env d s =
     (let diags = [];
          vpcEndpointID = vpc_endpoint_id d;
          securityGroupID = security_group_id d;
          replaceDefaultAssociation = replace_default_association d
      in if replaceDefaultAssociation
         then (case callFindVPCEndpointByID env vpcEndpointID s of
                 (Inl e, s1) \<Rightarrow>
                   (AppendErrorf diags (''reading VPC Endpoint ('' @ vpcEndpointID @ ''): '' @ Error e),
                    d, s1)
               | (Inr vpcEndpoint, s1) \<Rightarrow>
                   (let vpcID = StringValue (VpcId vpcEndpoint)
                    in case callFindVPCDefaultSecurityGroup env vpcID s1 of
                         (Inl e, s2) \<Rightarrow>
                           (AppendErrorf diags (''reading EC2 VPC ('' @ vpcID @
                                                '') default Security Group: '' @ Error e), d, s2)
                       | (Inr defaultSecurityGroup, s2) \<Rightarrow>
                           (let defaultSecurityGroupID = StringValue (GroupId defaultSecurityGroup)
                            in if defaultSecurityGroupID = securityGroupID
                               then (AppendErrorf diags
                                       (securityGroupID @
                                        '' is the default Security Group for EC2 VPC ('' @ vpcID @ '')''),
                                     d, s2)
                               else if \<not> foundDefaultAssociation (Groups vpcEndpoint) defaultSecurityGroupID
                               then (AppendErrorf diags
                                       (''no association of default Security Group ('' @
                                        defaultSecurityGroupID @ '') with VPC Endpoint ('' @
                                        vpcEndpointID @ '')''),
                                     d, s2)
                               else create_tail env d defaultSecurityGroupID s2)))
         else create_tail env d [] s)"

text \<open>
  \<open>resourceVPCEndpointSecurityGroupAssociationDelete\<close>. \<open>delete_tail\<close> is its last
  statement, the removal of the managed association, reached with or without the
  restore that precedes it under replacement.
\<close>

definition delete_tail ::
  "'w ec2_env \<Rightarrow> sga_data \<Rightarrow> 'w ec2_state \<Rightarrow> Diagnostics \<times> 'w ec2_state" where
  "delete_tail env d s =
     (let diags = []
      in case deleteVPCEndpointSecurityGroupAssociation env (vpc_endpoint_id d)
                (security_group_id d) s of
           (Some e, s1) \<Rightarrow> (AppendFromErr diags e, s1)
         | (None, s1) \<Rightarrow> (diags, s1))"

definition resourceVPCEndpointSecurityGroupAssociationDelete ::
  "'w ec2_env \<Rightarrow> sga_data \<Rightarrow> 'w ec2_state \<Rightarrow> Diagnostics \<times> 'w ec2_state" where
  "resourceVPCEndpointSecurityGroupAssociationDelete env d s =
     (let diags = [];
          vpcEndpointID = vpc_endpoint_id d;
          replaceDefaultAssociation = replace_default_association d
      in if replaceDefaultAssociation
         then (case callFindVPCEndpointByID env vpcEndpointID s of
                 (Inl e, s1) \<Rightarrow>
                   (AppendErrorf diags (''reading VPC Endpoint ('' @ vpcEndpointID @ ''): '' @ Error e),
                    s1)
               | (Inr vpcEndpoint, s1) \<Rightarrow>
                   (let vpcID = StringValue (VpcId vpcEndpoint)
                    in case callFindVPCDefaultSecurityGroup env vpcID s1 of
                         (Inl e, s2) \<Rightarrow>
                           (AppendErrorf diags (''reading EC2 VPC ('' @ vpcID @
                                                '') default Security Group: '' @ Error e), s2)
                       | (Inr defaultSecurityGroup, s2) \<Rightarrow>
                           (case createVPCEndpointSecurityGroupAssociation env vpcEndpointID
                                   (StringValue (GroupId defaultSecurityGroup)) s2 of
                              (Some e, s3) \<Rightarrow> (AppendFromErr diags e, s3)
                            | (None, s3) \<Rightarrow> delete_tail env d s3)))
         else delete_tail env d s)"

section \<open>Service Catalog: provisioning artifact\<close>

subsection \<open>Nil pointers\<close>

text \<open>
  A Go pointer is an option; reading a field through a nil pointer panics. The handlers
  return \<open>panic + result\<close>, so that a dereference the source's checks do not guard
  would show as \<open>Inl NilPointerDereference\<close>. \<open>or_else\<close> is Go's \<open>||\<close>: the right
  operand is only evaluated (and can only panic) when the left one is false.
\<close>

datatype panic = NilPointerDereference

definition deref :: "'a option \<Rightarrow> panic + 'a" where
  "deref p = (case p of None \<Rightarrow> Inl NilPointerDereference | Some x \<Rightarrow> Inr x)"

definition and_then :: "panic + 'a \<Rightarrow> ('a \<Rightarrow> panic + 'b) \<Rightarrow> panic + 'b" where
  "and_then m f = (case m of Inl p \<Rightarrow> Inl p | Inr x \<Rightarrow> f x)"

definition or_else :: "panic + bool \<Rightarrow> panic + bool \<Rightarrow> panic + bool" where
  "or_else a b = (case a of Inl p \<Rightarrow> Inl p | Inr t \<Rightarrow> if t then Inr True else b)"

definition BoolValue :: "bool option \<Rightarrow> bool" where
  "BoolValue p = (case p of None \<Rightarrow> False | Some b \<Rightarrow> b)"

subsection \<open>The remote API\<close>

record ProvisioningArtifactDetail =
  pad_Active :: "bool option"
  pad_CreatedTime :: "int option"
  pad_Description :: "string option"
  pad_Guidance :: "string option"
  pad_Id :: "string option"
  pad_Name :: "string option"
  pad_Type :: "string option"

record CreateProvisioningArtifactOutput =
  cpo_ProvisioningArtifactDetail :: "ProvisioningArtifactDetail option"

record DescribeProvisioningArtifactOutput =
  dpo_Info :: "(string \<times> string option) list"
  dpo_ProvisioningArtifactDetail :: "ProvisioningArtifactDetail option"

record 'p CreateProvisioningArtifactInput =
  cpi_AcceptLanguage :: "string option"
  cpi_IdempotencyToken :: "string option"
  cpi_Parameters :: "'p"
  cpi_ProductId :: "string option"

record UpdateProvisioningArtifactInput =
  upi_AcceptLanguage :: "string option"
  upi_Active :: "bool option"
  upi_Description :: "string option"
  upi_Guidance :: "string option"
  upi_Name :: "string option"
  upi_ProductId :: "string option"
  upi_ProvisioningArtifactId :: "string option"

record DeleteProvisioningArtifactInput =
  dpi_AcceptLanguage :: "string option"
  dpi_ProductId :: "string option"
  dpi_ProvisioningArtifactId :: "string option"

text \<open>The map \<open>parameters\<close> that create builds, with its six keys.\<close>

record pa_parameters =
  par_description :: string
  par_disable_template_validation :: bool
  par_name :: string
  par_template_physical_id :: string
  par_template_url :: string
  par_type :: string

datatype 'p sc_call =
    CallCreateProvisioningArtifact "'p CreateProvisioningArtifactInput"
  | CallUpdateProvisioningArtifact UpdateProvisioningArtifactInput
  | CallDeleteProvisioningArtifact DeleteProvisioningArtifactInput
  | CallWaitProvisioningArtifactReady string string nat
  | CallWaitProvisioningArtifactDeleted string string nat

fun is_create_call :: "'p sc_call \<Rightarrow> bool" where
  "is_create_call (CallCreateProvisioningArtifact i) = True"
| "is_create_call c = False"

fun is_update_call :: "'p sc_call \<Rightarrow> bool" where
  "is_update_call (CallUpdateProvisioningArtifact i) = True"
| "is_update_call c = False"

text \<open>
  The state a handler threads: the calls issued so far, the remote world, and the local
  variable \<open>output\<close> of create, which the retry closure captures and assigns.
\<close>

record ('w, 'p) sc_state =
  sc_calls :: "'p sc_call list"
  sc_world :: "'w"
  var_output :: "CreateProvisioningArtifactOutput option"

text \<open>\<open>*resource.RetryError\<close>, as \<open>resource.RetryableError\<close> and \<open>resource.NonRetryableError\<close> build it.\<close>

datatype RetryError = RetryableError err | NonRetryableError err

text \<open>
  The connection, and what the handlers use from outside the files at hand, as
  parameters: the three remote operations and the two waiters (each answers from the
  world and moves it), the identifier helpers of the package, the retry executor
  \<open>resource.RetryContext\<close> with \<open>tfresource.TimedOut\<close>, \<open>resource.UniqueId\<close>,
  \<open>time.Format(time.RFC3339)\<close> and the two error-code constants of the SDK. A
  remote operation returns its output pointer and its error, as in Go.
\<close>

record ('w, 'p) sc_env =
  CreateProvisioningArtifactWithContext ::
    "'p CreateProvisioningArtifactInput \<Rightarrow> 'w \<Rightarrow>
       (CreateProvisioningArtifactOutput option \<times> err option) \<times> 'w"
  UpdateProvisioningArtifactWithContext ::
    "UpdateProvisioningArtifactInput \<Rightarrow> 'w \<Rightarrow> err option \<times> 'w"
  DeleteProvisioningArtifactWithContext ::
    "DeleteProvisioningArtifactInput \<Rightarrow> 'w \<Rightarrow> err option \<times> 'w"
  WaitProvisioningArtifactReady ::
    "string \<Rightarrow> string \<Rightarrow> nat \<Rightarrow> 'w \<Rightarrow>
       (DescribeProvisioningArtifactOutput option \<times> err option) \<times> 'w"
  WaitProvisioningArtifactDeleted :: "string \<Rightarrow> string \<Rightarrow> nat \<Rightarrow> 'w \<Rightarrow> err option \<times> 'w"
  ProvisioningArtifactID :: "string \<Rightarrow> string \<Rightarrow> string"
  ProvisioningArtifactParseID :: "string \<Rightarrow> err + (string \<times> string)"
  expandProvisioningArtifactParameters :: "pa_parameters \<Rightarrow> 'p"
  UniqueId :: "'w \<Rightarrow> string \<times> 'w"
  RetryContext ::
    "nat \<Rightarrow> (('w, 'p) sc_state \<Rightarrow> RetryError option \<times> ('w, 'p) sc_state) \<Rightarrow>
       ('w, 'p) sc_state \<Rightarrow> err option \<times> ('w, 'p) sc_state"
  TimedOut :: "err option \<Rightarrow> bool"
  FormatRFC3339 :: "int \<Rightarrow> string"
  ErrCodeInvalidParametersException :: string
  ErrCodeResourceNotFoundException :: string

definition callCreateProvisioningArtifact ::
  "('w, 'p) sc_env \<Rightarrow> 'p CreateProvisioningArtifactInput \<Rightarrow> ('w, 'p) sc_state \<Rightarrow>
     (CreateProvisioningArtifactOutput option \<times> err option) \<times> ('w, 'p) sc_state" where
  "callCreateProvisioningArtifact env input s =
     (case CreateProvisioningArtifactWithContext env input (sc_world s) of
        (r, w') \<Rightarrow>
          (r, s\<lparr>sc_calls := sc_calls s @ [CallCreateProvisioningArtifact input], sc_world := w'\<rparr>))"

definition callUpdateProvisioningArtifact ::
  "('w, 'p) sc_env \<Rightarrow> UpdateProvisioningArtifactInput \<Rightarrow> ('w, 'p) sc_state \<Rightarrow>
     err option \<times> ('w, 'p) sc_state" where
  "callUpdateProvisioningArtifact env input s =
     (case UpdateProvisioningArtifactWithContext env input (sc_world s) of
        (r, w') \<Rightarrow>
          (r, s\<lparr>sc_calls := sc_calls s @ [CallUpdateProvisioningArtifact input], sc_world := w'\<rparr>))"

definition callDeleteProvisioningArtifact ::
  "('w, 'p) sc_env \<Rightarrow> DeleteProvisioningArtifactInput \<Rightarrow> ('w, 'p) sc_state \<Rightarrow>
     err option \<times> ('w, 'p) sc_state" where
  "callDeleteProvisioningArtifact env input s =
     (case DeleteProvisioningArtifactWithContext env input (sc_world s) of
        (r, w') \<Rightarrow>
          (r, s\<lparr>sc_calls := sc_calls s @ [CallDeleteProvisioningArtifact input], sc_world := w'\<rparr>))"

definition callWaitProvisioningArtifactReady ::
  "('w, 'p) sc_env \<Rightarrow> string \<Rightarrow> string \<Rightarrow> nat \<Rightarrow> ('w, 'p) sc_state \<Rightarrow>
     (DescribeProvisioningArtifactOutput option \<times> err option) \<times> ('w, 'p) sc_state" where
  "callWaitProvisioningArtifactReady env artifactID productID timeout s =
     (case WaitProvisioningArtifactReady env artifactID productID timeout (sc_world s) of
        (r, w') \<Rightarrow>
          (r, s\<lparr>sc_calls := sc_calls s @ [CallWaitProvisioningArtifactReady artifactID productID timeout],
                sc_world := w'\<rparr>))"

definition callWaitProvisioningArtifactDeleted ::
  "('w, 'p) sc_env \<Rightarrow> string \<Rightarrow> string \<Rightarrow> nat \<Rightarrow> ('w, 'p) sc_state \<Rightarrow>
     err option \<times> ('w, 'p) sc_state" where
  "callWaitProvisioningArtifactDeleted env artifactID productID timeout s =
     (case WaitProvisioningArtifactDeleted env artifactID productID timeout (sc_world s) of
        (r, w') \<Rightarrow>
          (r, s\<lparr>sc_calls := sc_calls s @ [CallWaitProvisioningArtifactDeleted artifactID productID timeout],
                sc_world := w'\<rparr>))"

subsection \<open>The resource data\<close>

text \<open>
  The attributes of the schema, with their declared types. The resource data holds the
  prior state and the planned values: \<open>d.Get\<close> reads the planned value, \<open>d.GetOk\<close>
  also tells whether it is not the zero value of its type, \<open>d.HasChange\<close> compares the
  prior state with the plan, and \<open>d.Set\<close> writes the value later reads return. Every
  handler evaluates \<open>HasChanges\<close> before its first \<open>d.Set\<close>.
\<close>

record pa_config =
  pa_accept_language :: string
  pa_active :: bool
  pa_created_time :: string
  pa_description :: string
  pa_disable_template_validation :: bool
  pa_guidance :: string
  pa_name :: string
  pa_product_id :: string
  pa_template_physical_id :: string
  pa_template_url :: string
  pa_type :: string

record pa_data =
  pa_id :: string
  pa_prior :: pa_config
  pa_plan :: pa_config
  pa_is_new :: bool
  pa_timeout_create :: nat
  pa_timeout_read :: nat
  pa_timeout_update :: nat
  pa_timeout_delete :: nat

datatype pa_key =
    K_accept_language | K_active | K_description | K_guidance | K_name | K_product_id

datatype attr_value = StringAttr string | BoolAttr bool

fun attr_of :: "pa_key \<Rightarrow> pa_config \<Rightarrow> attr_value" where
  "attr_of K_accept_language c = StringAttr (pa_accept_language c)"
| "attr_of K_active c = BoolAttr (pa_active c)"
| "attr_of K_description c = StringAttr (pa_description c)"
| "attr_of K_guidance c = StringAttr (pa_guidance c)"
| "attr_of K_name c = StringAttr (pa_name c)"
| "attr_of K_product_id c = StringAttr (pa_product_id c)"

definition HasChange :: "pa_data \<Rightarrow> pa_key \<Rightarrow> bool" where
  "HasChange d k = (attr_of k (pa_prior d) \<noteq> attr_of k (pa_plan d))"

definition HasChanges :: "pa_data \<Rightarrow> pa_key list \<Rightarrow> bool" where
  "HasChanges d ks = list_ex (HasChange d) ks"

text \<open>\<open>v, ok := d.GetOk(key)\<close> on a string attribute, as the pointer the handlers build from it.\<close>

definition GetOk_String :: "string \<Rightarrow> string option" where
  "GetOk_String v = (if v \<noteq> [] then Some v else None)"

subsection \<open>The handlers\<close>

text \<open>
  The function handed to \<open>resource.RetryContext\<close> answers nil (done), a retryable error
  or a non-retryable one. Both closures of this file classify alike: an
  \<open>InvalidParametersException\<close> whose message contains "profile does not exist" is
  retryable, any other error is not. (\<open>resource.RetryableError(nil)\<close> is nil.)
\<close>

definition classify :: "('w, 'p) sc_env \<Rightarrow> err option \<Rightarrow> RetryError option" where
  "classify env e =
     (if ErrMessageContains e (ErrCodeInvalidParametersException env) ''profile does not exist''
      then (case e of Some x \<Rightarrow> Some (RetryableError x) | None \<Rightarrow> None)
      else (case e of Some x \<Rightarrow> Some (NonRetryableError x) | None \<Rightarrow> None))"

text \<open>\<open>resourceProvisioningArtifactRead\<close>: the attributes it sets from a complete response.\<close>

definition read_set ::
  "('w, 'p) sc_env \<Rightarrow> pa_data \<Rightarrow> DescribeProvisioningArtifactOutput \<Rightarrow>
     ProvisioningArtifactDetail \<Rightarrow> string \<Rightarrow> pa_data" where
  "read_set env d out pad productID =
     (let c0 = pa_plan d;
          c1 = (case map_of (dpo_Info out) ''ImportFromPhysicalId'' of
                  Some v \<Rightarrow> c0\<lparr>pa_template_physical_id := StringValue v\<rparr>
                | None \<Rightarrow> c0);
          c2 = (case map_of (dpo_Info out) ''LoadTemplateFromURL'' of
                  Some v \<Rightarrow> c1\<lparr>pa_template_url := StringValue v\<rparr>
                | None \<Rightarrow> c1);
          c3 = c2\<lparr>pa_active := BoolValue (pad_Active pad)\<rparr>;
          c4 = (case pad_CreatedTime pad of
                  Some t \<Rightarrow> c3\<lparr>pa_created_time := FormatRFC3339 env t\<rparr>
                | None \<Rightarrow> c3)
      in d\<lparr>pa_plan := c4\<lparr>pa_description := StringValue (pad_Description pad),
                             pa_guidance := StringValue (pad_Guidance pad),
                             pa_name := StringValue (pad_Name pad),
                             pa_product_id := productID,
                             pa_type := StringValue (pad_Type pad)\<rparr>\<rparr>)"

definition resourceProvisioningArtifactRead ::
  "('w, 'p) sc_env \<Rightarrow> pa_data \<Rightarrow> ('w, 'p) sc_state \<Rightarrow>
     panic + (Diagnostics \<times> pa_data \<times> ('w, 'p) sc_state)" where
  "resourceProvisioningArtifactRead env d s =
     (let diags = []
      in case ProvisioningArtifactParseID env (pa_id d) of
           Inl e \<Rightarrow>
             Inr (AppendErrorf diags (''parsing Service Catalog Provisioning Artifact ID ('' @
                                      pa_id d @ ''): '' @ Error e), d, s)
         | Inr (artifactID, productID) \<Rightarrow>
             (case callWaitProvisioningArtifactReady env artifactID productID (pa_timeout_read d) s of
                ((output, e), s1) \<Rightarrow>
                  if \<not> pa_is_new d \<and> ErrCodeEquals e [ErrCodeResourceNotFoundException env]
                  then Inr (diags, d\<lparr>pa_id := []\<rparr>, s1)
                  else (case e of
                          Some x \<Rightarrow>
                            Inr (AppendErrorf diags (''describing Service Catalog Provisioning Artifact ('' @
                                                     pa_id d @ ''): '' @ Error x), d, s1)
                        | None \<Rightarrow>
                            and_then
                              (or_else (Inr (output = None))
                                 (and_then (deref output)
                                    (\<lambda>out. Inr (dpo_ProvisioningArtifactDetail out = None))))
                              (\<lambda>empty.
                                 if empty
                                 then Inr (AppendErrorf diags
                                             (''getting Service Catalog Provisioning Artifact ('' @
                                              pa_id d @ ''): empty response''), d, s1)
                                 else and_then (deref output) (\<lambda>out.
                                      and_then (deref (dpo_ProvisioningArtifactDetail out)) (\<lambda>pad.
                                        Inr (diags, read_set env d out pad productID, s1)))))))"

text \<open>\<open>resourceProvisioningArtifactUpdate\<close>: the request it builds, and its retry closure.\<close>

definition updateInput :: "pa_data \<Rightarrow> string \<Rightarrow> string \<Rightarrow> UpdateProvisioningArtifactInput" where
  "updateInput d artifactID productID =
     \<lparr>upi_AcceptLanguage = GetOk_String (pa_accept_language (pa_plan d)),
      upi_Active = Some (pa_active (pa_plan d)),
      upi_Description = GetOk_String (pa_description (pa_plan d)),
      upi_Guidance = GetOk_String (pa_guidance (pa_plan d)),
      upi_Name = GetOk_String (pa_name (pa_plan d)),
      upi_ProductId = Some productID,
      upi_ProvisioningArtifactId = Some artifactID\<rparr>"

definition update_closure ::
  "('w, 'p) sc_env \<Rightarrow> UpdateProvisioningArtifactInput \<Rightarrow> ('w, 'p) sc_state \<Rightarrow>
     RetryError option \<times> ('w, 'p) sc_state" where
  "update_closure env input st =
     (case callUpdateProvisioningArtifact env input st of (e, st') \<Rightarrow> (classify env e, st'))"

definition resourceProvisioningArtifactUpdate ::
  "('w, 'p) sc_env \<Rightarrow> pa_data \<Rightarrow> ('w, 'p) sc_state \<Rightarrow>
     panic + (Diagnostics \<times> pa_data \<times> ('w, 'p) sc_state)" where
  "resourceProvisioningArtifactUpdate env d s =
     (let diags = []
      in if HasChanges d [K_accept_language, K_active, K_description, K_guidance, K_name, K_product_id]
         then (case ProvisioningArtifactParseID env (pa_id d) of
                 Inl e \<Rightarrow>
                   Inr (AppendErrorf diags (''parsing Service Catalog Provisioning Artifact ID ('' @
                                            pa_id d @ ''): '' @ Error e), d, s)
               | Inr (artifactID, productID) \<Rightarrow>
                   (let input = updateInput d artifactID productID
                    in case RetryContext env (pa_timeout_update d) (update_closure env input) s of
                         (e, s1) \<Rightarrow>
                           (case (if TimedOut env e then callUpdateProvisioningArtifact env input s1
                                  else (e, s1)) of
                              (Some x, s2) \<Rightarrow>
                                Inr (AppendErrorf diags
                                       (''updating Service Catalog Provisioning Artifact ('' @
                                        pa_id d @ ''): '' @ Error x), d, s2)
                            | (None, s2) \<Rightarrow>
                                and_then (resourceProvisioningArtifactRead env d s2)
                                  (\<lambda>(rdiags, d', s'). Inr (diags @ rdiags, d', s')))))
         else and_then (resourceProvisioningArtifactRead env d s)
                (\<lambda>(rdiags, d', s'). Inr (diags @ rdiags, d', s')))"

text \<open>
  \<open>resourceProvisioningArtifactCreate\<close>, in two parts. \<open>create_attempts\<close> is the source
  up to the timeout check: it builds the request, runs the closure under
  \<open>RetryContext\<close> and, when that timed out, calls the remote operation once more. It
  yields the error the source holds in \<open>err\<close> at that point; \<open>output\<close> is in the state.
\<close>

definition createInput ::
  "('w, 'p) sc_env \<Rightarrow> pa_data \<Rightarrow> string \<Rightarrow> 'p CreateProvisioningArtifactInput" where
  "createInput env d token =
     \<lparr>cpi_AcceptLanguage = GetOk_String (pa_accept_language (pa_plan d)),
      cpi_IdempotencyToken = Some token,
      cpi_Parameters = expandProvisioningArtifactParameters env
         \<lparr>par_description = pa_description (pa_plan d),
          par_disable_template_validation = pa_disable_template_validation (pa_plan d),
          par_name = pa_name (pa_plan d),
          par_template_physical_id = pa_template_physical_id (pa_plan d),
          par_template_url = pa_template_url (pa_plan d),
          par_type = pa_type (pa_plan d)\<rparr>,
      cpi_ProductId = Some (pa_product_id (pa_plan d))\<rparr>"

definition create_direct ::
  "('w, 'p) sc_env \<Rightarrow> 'p CreateProvisioningArtifactInput \<Rightarrow> ('w, 'p) sc_state \<Rightarrow>
     err option \<times> ('w, 'p) sc_state" where
  "create_direct env input st =
     (case callCreateProvisioningArtifact env input st of
        ((out, e), st') \<Rightarrow> (e, st'\<lparr>var_output := out\<rparr>))"

definition create_closure ::
  "('w, 'p) sc_env \<Rightarrow> 'p CreateProvisioningArtifactInput \<Rightarrow> ('w, 'p) sc_state \<Rightarrow>
     RetryError option \<times> ('w, 'p) sc_state" where
  "create_closure env input st =
     (case create_direct env input st of (e, st') \<Rightarrow> (classify env e, st'))"

definition create_attempts ::
  "('w, 'p) sc_env \<Rightarrow> pa_data \<Rightarrow> ('w, 'p) sc_state \<Rightarrow> err option \<times> ('w, 'p) sc_state" where
  "create_attempts env d s =
     (case UniqueId env (sc_world s) of
        (token, w0) \<Rightarrow>
          (let input = createInput env d token;
               s0 = s\<lparr>sc_world := w0, var_output := None\<rparr>
           in case RetryContext env (pa_timeout_create d) (create_closure env input) s0 of
                (e, s1) \<Rightarrow> if TimedOut env e then create_direct env input s1 else (e, s1)))"

text \<open>
  \<open>create_finish\<close> is the rest of the source once \<open>err\<close> is nil: the check of the
  response, \<open>d.SetId\<close>, and the update that follows every create.
\<close>

definition create_finish ::
  "('w, 'p) sc_env \<Rightarrow> pa_data \<Rightarrow> ('w, 'p) sc_state \<Rightarrow>
     panic + (Diagnostics \<times> pa_data \<times> ('w, 'p) sc_state)" where
  "create_finish env d s =
     (let diags = [];
          output = var_output s
      in and_then
           (or_else (Inr (output = None))
              (or_else
                 (and_then (deref output)
                    (\<lambda>out. Inr (cpo_ProvisioningArtifactDetail out = None)))
                 (and_then (deref output) (\<lambda>out.
                  and_then (deref (cpo_ProvisioningArtifactDetail out)) (\<lambda>pad.
                    Inr (pad_Id pad = None))))))
           (\<lambda>empty.
              if empty
              then Inr (AppendErrorf diags
                          ''creating Service Catalog Provisioning Artifact: empty response'', d, s)
              else and_then (deref output) (\<lambda>out.
                   and_then (deref (cpo_ProvisioningArtifactDetail out)) (\<lambda>pad.
                     (let d1 = d\<lparr>pa_id := ProvisioningArtifactID env (StringValue (pad_Id pad))
                                             (pa_product_id (pa_plan d))\<rparr>
                      in and_then (resourceProvisioningArtifactUpdate env d1 s)
                           (\<lambda>(udiags, d', s'). Inr (diags @ udiags, d', s')))))))"

definition resourceProvisioningArtifactCreate ::
  "('w, 'p) sc_env \<Rightarrow> pa_data \<Rightarrow> ('w, 'p) sc_state \<Rightarrow>
     panic + (Diagnostics \<times> pa_data \<times> ('w, 'p) sc_state)" where
  "resourceProvisioningArtifactCreate env d s =
     (let diags = []
      in case create_attempts env d s of
           (Some e, s2) \<Rightarrow>
             Inr (AppendErrorf diags (''creating Service Catalog Provisioning Artifact: '' @ Error e),
                  d, s2)
         | (None, s2) \<Rightarrow> create_finish env d s2)"

text \<open>\<open>resourceProvisioningArtifactDelete\<close>.\<close>

definition resourceProvisioningArtifactDelete ::
  "('w, 'p) sc_env \<Rightarrow> pa_data \<Rightarrow> ('w, 'p) sc_state \<Rightarrow> Diagnostics \<times> ('w, 'p) sc_state" where
  "resourceProvisioningArtifactDelete env d s =
     (let diags = []
      in case ProvisioningArtifactParseID env (pa_id d) of
           Inl e \<Rightarrow>
             (AppendErrorf diags (''parsing Service Catalog Provisioning Artifact ID ('' @
                                  pa_id d @ ''): '' @ Error e), s)
         | Inr (artifactID, productID) \<Rightarrow>
             (let input = \<lparr>dpi_AcceptLanguage = GetOk_String (pa_accept_language (pa_plan d)),
                            dpi_ProductId = Some productID,
                            dpi_ProvisioningArtifactId = Some artifactID\<rparr>
              in case callDeleteProvisioningArtifact env input s of
                   (e, s1) \<Rightarrow>
                     if ErrCodeEquals e [ErrCodeResourceNotFoundException env] then (diags, s1)
                     else (case e of
                             Some x \<Rightarrow>
                               (AppendErrorf diags
                                  (''deleting Service Catalog Provisioning Artifact ('' @
                                   pa_id d @ ''): '' @ Error x), s1)
                           | None \<Rightarrow>
                               (case callWaitProvisioningArtifactDeleted env artifactID productID
                                       (pa_timeout_delete d) s1 of
                                  (Some x, s2) \<Rightarrow>
                                    (AppendErrorf diags
                                       (''waiting for Service Catalog Provisioning Artifact ('' @
                                        pa_id d @ '') to be deleted: '' @ Error x), s2)
                                | (None, s2) \<Rightarrow> (diags, s2)))))"

section \<open>API Gateway: method response\<close>

subsection \<open>The remote API\<close>

record PatchOperation =
  po_Op :: "string option"
  po_Path :: "string option"
  po_Value :: "string option"

record PutMethodResponseInput =
  put_HttpMethod :: "string option"
  put_ResourceId :: "string option"
  put_RestApiId :: "string option"
  put_StatusCode :: "string option"
  put_ResponseModels :: "(string \<times> string) list"
  put_ResponseParameters :: "(string \<times> bool) list"

record GetMethodResponseInput =
  get_HttpMethod :: "string option"
  get_ResourceId :: "string option"
  get_RestApiId :: "string option"
  get_StatusCode :: "string option"

record UpdateMethodResponseInput =
  upd_HttpMethod :: "string option"
  upd_ResourceId :: "string option"
  upd_RestApiId :: "string option"
  upd_StatusCode :: "string option"
  upd_PatchOperations :: "PatchOperation list"

record DeleteMethodResponseInput =
  del_HttpMethod :: "string option"
  del_ResourceId :: "string option"
  del_RestApiId :: "string option"
  del_StatusCode :: "string option"

record MethodResponse =
  ResponseModels :: "(string \<times> string option) list"
  ResponseParameters :: "(string \<times> bool option) list"

datatype ag_call =
    CallPutMethodResponse PutMethodResponseInput
  | CallGetMethodResponse GetMethodResponseInput
  | CallUpdateMethodResponse UpdateMethodResponseInput
  | CallDeleteMethodResponse DeleteMethodResponseInput

fun is_update_method_response :: "ag_call \<Rightarrow> bool" where
  "is_update_method_response (CallUpdateMethodResponse i) = True"
| "is_update_method_response c = False"

record 'w ag_state =
  ag_calls :: "ag_call list"
  ag_world :: "'w"

subsection \<open>The resource data\<close>

text \<open>
  A value of the map \<open>response_parameters\<close> reaches create as a \<open>bool\<close> or as a string
  that \<open>strconv.ParseBool\<close> reads.
\<close>

datatype param_value = BoolParam bool | StringParam string

record mr_config =
  rest_api_id :: string
  resource_id :: string
  http_method :: string
  status_code :: string
  response_models :: "(string \<times> string) list"
  response_parameters :: "(string \<times> param_value) list"

record mr_data =
  mr_id :: string
  mr_prior :: mr_config
  mr_plan :: mr_config
  mr_is_new :: bool

text \<open>
  The connection and the package's helpers outside the file, as parameters: the four
  remote operations, \<open>tfresource.RetryWhenAWSErrCodeEquals\<close> (its function's output is
  discarded by the caller and left out), the two functions that expand a changed map
  into patch operations, the SDK's two error-code constants, and \<open>Quote\<close>, the
  formatting of a string by \<open>fmt\<close>'s verb \<open>%q\<close>.
\<close>

record 'w ag_env =
  PutMethodResponseWithContext :: "PutMethodResponseInput \<Rightarrow> 'w \<Rightarrow> err option \<times> 'w"
  GetMethodResponseWithContext :: "GetMethodResponseInput \<Rightarrow> 'w \<Rightarrow> (err + MethodResponse) \<times> 'w"
  UpdateMethodResponseWithContext :: "UpdateMethodResponseInput \<Rightarrow> 'w \<Rightarrow> err option \<times> 'w"
  DeleteMethodResponseWithContext :: "DeleteMethodResponseInput \<Rightarrow> 'w \<Rightarrow> err option \<times> 'w"
  RetryWhenAWSErrCodeEquals ::
    "nat \<Rightarrow> ('w ag_state \<Rightarrow> err option \<times> 'w ag_state) \<Rightarrow> string list \<Rightarrow>
       'w ag_state \<Rightarrow> err option \<times> 'w ag_state"
  expandRequestResponseModelOperations :: "mr_data \<Rightarrow> string \<Rightarrow> string \<Rightarrow> PatchOperation list"
  expandMethodParametersOperations :: "mr_data \<Rightarrow> string \<Rightarrow> string \<Rightarrow> PatchOperation list"
  ErrCodeConflictException :: string
  ErrCodeNotFoundException :: string
  Quote :: "string \<Rightarrow> string"

definition callPutMethodResponse ::
  "'w ag_env \<Rightarrow> PutMethodResponseInput \<Rightarrow> 'w ag_state \<Rightarrow> err option \<times> 'w ag_state" where
  "callPutMethodResponse env input s =
     (case PutMethodResponseWithContext env input (ag_world s) of
        (r, w') \<Rightarrow> (r, \<lparr>ag_calls = ag_calls s @ [CallPutMethodResponse input], ag_world = w'\<rparr>))"

definition callGetMethodResponse ::
  "'w ag_env \<Rightarrow> GetMethodResponseInput \<Rightarrow> 'w ag_state \<Rightarrow> (err + MethodResponse) \<times> 'w ag_state" where
  "callGetMethodResponse env input s =
     (case GetMethodResponseWithContext env input (ag_world s) of
        (r, w') \<Rightarrow> (r, \<lparr>ag_calls = ag_calls s @ [CallGetMethodResponse input], ag_world = w'\<rparr>))"

definition callUpdateMethodResponse ::
  "'w ag_env \<Rightarrow> UpdateMethodResponseInput \<Rightarrow> 'w ag_state \<Rightarrow> err option \<times> 'w ag_state" where
  "callUpdateMethodResponse env input s =
     (case UpdateMethodResponseWithContext env input (ag_world s) of
        (r, w') \<Rightarrow> (r, \<lparr>ag_calls = ag_calls s @ [CallUpdateMethodResponse input], ag_world = w'\<rparr>))"

definition callDeleteMethodResponse ::
  "'w ag_env \<Rightarrow> DeleteMethodResponseInput \<Rightarrow> 'w ag_state \<Rightarrow> err option \<times> 'w ag_state" where
  "callDeleteMethodResponse env input s =
     (case DeleteMethodResponseWithContext env input (ag_world s) of
        (r, w') \<Rightarrow> (r, \<lparr>ag_calls = ag_calls s @ [CallDeleteMethodResponse input], ag_world = w'\<rparr>))"

subsection \<open>The identifier\<close>

text \<open>
  \<open>strings.Split(s, sep)\<close> for a separator of one byte: the pieces of \<open>s\<close> between the
  separators, one piece more than there are separators (\<open>[""]\<close> for the empty string).
\<close>

fun Split :: "string \<Rightarrow> char \<Rightarrow> string list" where
  "Split [] sep = [[]]"
| "Split (c # cs) sep =
     (if c = sep then [] # Split cs sep
      else (case Split cs sep of [] \<Rightarrow> [[c]] | p # ps \<Rightarrow> (c # p) # ps))"

text \<open>\<open>fmt.Sprintf("agmr-%s-%s-%s-%s", ...)\<close>, as create and the importer both write it.\<close>

definition agmr_id :: "string \<Rightarrow> string \<Rightarrow> string \<Rightarrow> string \<Rightarrow> string" where
  "agmr_id restApiID resourceID httpMethod statusCode =
     ''agmr-'' @ restApiID @ ''-'' @ resourceID @ ''-'' @ httpMethod @ ''-'' @ statusCode"

text \<open>
  The importer (\<open>Importer.StateContext\<close>). Its error message formats the identifier
  with \<open>%q\<close>.
\<close>

definition StateContext :: "'w ag_env \<Rightarrow> mr_data \<Rightarrow> err + mr_data list" where
  "StateContext env d =
     (let idParts = Split (mr_id d) (CHR ''/'')
      in if length idParts \<noteq> 4 \<or> idParts ! 0 = [] \<or> idParts ! 1 = [] \<or>
            idParts ! 2 = [] \<or> idParts ! 3 = []
         then Inl (PlainErr (''Unexpected format of ID ('' @ Quote env (mr_id d) @
                             ''), expected REST-API-ID/RESOURCE-ID/HTTP-METHOD/STATUS-CODE''))
         else (let restApiID = idParts ! 0;
                   resourceID = idParts ! 1;
                   httpMethod = idParts ! 2;
                   statusCode = idParts ! 3
               in Inr [d\<lparr>mr_plan := (mr_plan d)\<lparr>http_method := httpMethod,
                                                 status_code := statusCode,
                                                 resource_id := resourceID,
                                                 rest_api_id := restApiID\<rparr>,
                         mr_id := agmr_id restApiID resourceID httpMethod statusCode\<rparr>]))"

subsection \<open>The handlers\<close>

text \<open>\<open>strconv.ParseBool\<close>, with the error dropped as create drops it (the value is then false).\<close>

definition ParseBool :: "string \<Rightarrow> bool" where
  "ParseBool str = (str \<in> set [''1'', ''t'', ''T'', ''TRUE'', ''true'', ''True''])"

definition create_parameters :: "mr_data \<Rightarrow> (string \<times> bool) list" where
  "create_parameters d =
     (let kv = response_parameters (mr_plan d)
      in if kv \<noteq> []
         then map (\<lambda>(k, v). (k, case v of BoolParam b \<Rightarrow> b | StringParam str \<Rightarrow> ParseBool str)) kv
         else [])"

definition putInput :: "mr_data \<Rightarrow> PutMethodResponseInput" where
  "putInput d =
     \<lparr>put_HttpMethod = Some (http_method (mr_plan d)),
      put_ResourceId = Some (resource_id (mr_plan d)),
      put_RestApiId = Some (rest_api_id (mr_plan d)),
      put_StatusCode = Some (status_code (mr_plan d)),
      put_ResponseModels = response_models (mr_plan d),
      put_ResponseParameters = create_parameters d\<rparr>"

text \<open>
  \<open>resourceMethodResponseCreate\<close>. The package-wide mutex it holds orders concurrent
  creates; one handler run on its own is what is modelled.
\<close>

definition resourceMethodResponseCreate ::
  "'w ag_env \<Rightarrow> mr_data \<Rightarrow> 'w ag_state \<Rightarrow> Diagnostics \<times> mr_data \<times> 'w ag_state" where
  "resourceMethodResponseCreate env d s =
     (let diags = []
      in case RetryWhenAWSErrCodeEquals env 120 (callPutMethodResponse env (putInput d))
                [ErrCodeConflictException env] s of
           (Some e, s1) \<Rightarrow>
             (AppendErrorf diags (''creating API Gateway Method Response: '' @ Error e), d, s1)
         | (None, s1) \<Rightarrow>
             (diags,
              d\<lparr>mr_id := agmr_id (rest_api_id (mr_plan d)) (resource_id (mr_plan d))
                            (http_method (mr_plan d)) (status_code (mr_plan d))\<rparr>,
              s1))"

text \<open>\<open>aws.StringValueMap\<close> and \<open>aws.BoolValueMap\<close>: the entries whose pointer is not nil.\<close>

definition ValueMap :: "(string \<times> 'a option) list \<Rightarrow> (string \<times> 'a) list" where
  "ValueMap src = concat (map (\<lambda>(k, v). case v of None \<Rightarrow> [] | Some x \<Rightarrow> [(k, x)]) src)"

text \<open>
  \<open>resourceMethodResponseRead\<close>. \<open>d.Set\<close> cannot fail on a value of the attribute's
  declared type, so its two error branches are not reached.
\<close>

definition resourceMethodResponseRead ::
  "'w ag_env \<Rightarrow> mr_data \<Rightarrow> 'w ag_state \<Rightarrow> Diagnostics \<times> mr_data \<times> 'w ag_state" where
  "resourceMethodResponseRead env d s =
     (let diags = [];
          input = \<lparr>get_HttpMethod = Some (http_method (mr_plan d)),
                   get_ResourceId = Some (resource_id (mr_plan d)),
                   get_RestApiId = Some (rest_api_id (mr_plan d)),
                   get_StatusCode = Some (status_code (mr_plan d))\<rparr>
      in case callGetMethodResponse env input s of
           (Inl e, s1) \<Rightarrow>
             if \<not> mr_is_new d \<and> ErrCodeEquals (Some e) [ErrCodeNotFoundException env]
             then (diags, d\<lparr>mr_id := []\<rparr>, s1)
             else (AppendErrorf diags (''reading API Gateway Method Response ('' @ mr_id d @
                                       ''): '' @ Error e), d, s1)
         | (Inr methodResponse, s1) \<Rightarrow>
             (diags,
              d\<lparr>mr_plan := (mr_plan d)
                   \<lparr>response_models := ValueMap (ResponseModels methodResponse),
                    response_parameters :=
                      map (\<lambda>(k, b). (k, BoolParam b)) (ValueMap (ResponseParameters methodResponse))\<rparr>\<rparr>,
              s1))"

text \<open>\<open>resourceMethodResponseUpdate\<close>: the patch operations it collects, then the one call.\<close>

definition HasChange_response_models :: "mr_data \<Rightarrow> bool" where
  "HasChange_response_models d = (response_models (mr_prior d) \<noteq> response_models (mr_plan d))"

definition HasChange_response_parameters :: "mr_data \<Rightarrow> bool" where
  "HasChange_response_parameters d =
     (response_parameters (mr_prior d) \<noteq> response_parameters (mr_plan d))"

definition update_operations :: "'w ag_env \<Rightarrow> mr_data \<Rightarrow> PatchOperation list" where
  "update_operations env d =
     (let operations = [];
          operations = (if HasChange_response_models d
                        then operations @
                             expandRequestResponseModelOperations env d ''response_models'' ''responseModels''
                        else operations);
          operations = (if HasChange_response_parameters d
                        then operations @
                             expandMethodParametersOperations env d ''response_parameters''
                               ''responseParameters''
                        else operations)
      in operations)"

definition resourceMethodResponseUpdate ::
  "'w ag_env \<Rightarrow> mr_data \<Rightarrow> 'w ag_state \<Rightarrow> Diagnostics \<times> mr_data \<times> 'w ag_state" where
  "resourceMethodResponseUpdate env d s =
     (let diags = [];
          input = \<lparr>upd_HttpMethod = Some (http_method (mr_plan d)),
                   upd_ResourceId = Some (resource_id (mr_plan d)),
                   upd_RestApiId = Some (rest_api_id (mr_plan d)),
                   upd_StatusCode = Some (status_code (mr_plan d)),
                   upd_PatchOperations = update_operations env d\<rparr>
      in case callUpdateMethodResponse env input s of
           (Some e, s1) \<Rightarrow>
             (AppendErrorf diags (''updating API Gateway Method Response ('' @ mr_id d @
                                  ''): '' @ Error e), d, s1)
         | (None, s1) \<Rightarrow>
             (case resourceMethodResponseRead env d s1 of
                (rdiags, d', s2) \<Rightarrow> (diags @ rdiags, d', s2)))"

text \<open>\<open>resourceMethodResponseDelete\<close>.\<close>

definition resourceMethodResponseDelete ::
  "'w ag_env \<Rightarrow> mr_data \<Rightarrow> 'w ag_state \<Rightarrow> Diagnostics \<times> 'w ag_state" where
  "resourceMethodResponseDelete env d s =
     (let diags = [];
          input = \<lparr>del_HttpMethod = Some (http_method (mr_plan d)),
                   del_ResourceId = Some (resource_id (mr_plan d)),
                   del_RestApiId = Some (rest_api_id (mr_plan d)),
                   del_StatusCode = Some (status_code (mr_plan d))\<rparr>
      in case callDeleteMethodResponse env input s of
           (e, s1) \<Rightarrow>
             if ErrCodeEquals e [ErrCodeNotFoundException env] then (diags, s1)
             else (case e of
                     Some x \<Rightarrow>
                       (AppendErrorf diags (''deleting API Gateway Method Response ('' @ mr_id d @
                                            ''): '' @ Error x), s1)
                   | None \<Rightarrow> (diags, s1)))"

section \<open>Simulated remote services\<close>

text \<open>
  Concrete, executable instances of the three environments, on which the scenarios of
  the specification are run. The theorems below hold for every environment; these
  instances show that their hypotheses are met.
\<close>

subsection \<open>EC2\<close>

text \<open>
  One VPC endpoint \<open>vpce-1\<close> in the VPC \<open>vpc-1\<close>, whose default security group is
  \<open>sg-default\<close>. The world is the list of groups associated with the endpoint and a
  flag that makes every removal be throttled; an endpoint holds at most two groups.
\<close>

definition sim_ec2 :: "(string list \<times> bool) ec2_env" where
  "sim_ec2 =
     \<lparr>FindVPCEndpointByID = (\<lambda>ident w.
          if ident = ''vpce-1''
          then (Inr \<lparr>VpcId = Some ''vpc-1'',
                     Groups = map (\<lambda>g. \<lparr>sgi_GroupId = Some g\<rparr>) (fst w)\<rparr>, w)
          else (Inl (AwsErr ''InvalidVpcEndpointId.NotFound'' ''no such endpoint''), w)),
      FindVPCDefaultSecurityGroup = (\<lambda>vpc w.
          if vpc = ''vpc-1'' then (Inr \<lparr>GroupId = Some ''sg-default''\<rparr>, w)
          else (Inl (PlainErr ''empty result''), w)),
      FindVPCEndpointSecurityGroupAssociationExists = (\<lambda>ident g w.
          if ident = ''vpce-1'' \<and> g \<in> set (fst w) then (None, w)
          else (Some (PlainErr ''empty result''), w)),
      ModifyVpcEndpointWithContext = (\<lambda>input w.
          if VpcEndpointId input \<noteq> ''vpce-1''
          then (Some (AwsErr ''InvalidVpcEndpointId.NotFound'' ''no such endpoint''), w)
          else if RemoveSecurityGroupIds input \<noteq> [] \<and> snd w
          then (Some (AwsErr ''RequestLimitExceeded'' ''throttled''), w)
          else if \<not> list_all (\<lambda>g. g \<in> set (fst w)) (RemoveSecurityGroupIds input)
          then (Some (AwsErr ''InvalidGroup.NotFound'' ''no such group''), w)
          else if 2 < length (fst w) + length (AddSecurityGroupIds input)
          then (Some (AwsErr ''SecurityGroupLimitExceeded'' ''too many groups''), w)
          else (None, (filter (\<lambda>g. g \<notin> set (RemoveSecurityGroupIds input)) (fst w) @
                         AddSecurityGroupIds input, snd w))),
      CreateID = (\<lambda>a b. a @ ''/'' @ b),
      NotFound = (\<lambda>e. e = Some (PlainErr ''empty result'')),
      errCodeInvalidVPCEndpointIdNotFound = ''InvalidVpcEndpointId.NotFound'',
      errCodeInvalidGroupNotFound = ''InvalidGroup.NotFound'',
      errCodeInvalidParameter = ''InvalidParameter''\<rparr>"

definition sim_sga :: "sga_data" where
  "sim_sga =
     \<lparr>sga_id = [], vpc_endpoint_id = ''vpce-1'', security_group_id = ''sg-2'',
      replace_default_association = True, sga_is_new = True\<rparr>"

subsection \<open>Service Catalog\<close>

text \<open>
  The retry executor \<open>resource.RetryContext\<close> of the plugin SDK and
  \<open>tfresource.TimedOut\<close> are not among the files at hand; the simulation follows
  their behaviour. The executor invokes the function and keeps the error of the last
  attempt (\<open>resultErr\<close>): nil ends it with nil, a non-retryable error ends it with that
  error, a retryable error is kept and the function is invoked again while the budget
  lasts. When the budget is spent the executor returns the error it kept, and only
  when it kept none, because no attempt has returned, a timeout error without a last
  error. The budget, a duration in the source, is the number of attempts that return
  within it; zero stands for a first call that hangs past the deadline, which leaves no
  trace in the model. \<open>sim_TimedOut\<close> is \<open>tfresource.TimedOut\<close>: the error is a timeout
  error, not wrapped, whose last error is nil.
\<close>

fun retry_budget ::
  "nat \<Rightarrow> err option \<Rightarrow> ('s \<Rightarrow> RetryError option \<times> 's) \<Rightarrow> 's \<Rightarrow> err option \<times> 's" where
  "retry_budget 0 resultErr f s =
     (case resultErr of
        None \<Rightarrow> (Some (TimeoutError None), s)
      | Some e \<Rightarrow> (Some e, s))"
| "retry_budget (Suc n) resultErr f s =
     (case f s of
        (None, s') \<Rightarrow> (None, s')
      | (Some (NonRetryableError e), s') \<Rightarrow> (Some e, s')
      | (Some (RetryableError e), s') \<Rightarrow> retry_budget n (Some e) f s')"

definition sim_RetryContext ::
  "nat \<Rightarrow> ('s \<Rightarrow> RetryError option \<times> 's) \<Rightarrow> 's \<Rightarrow> err option \<times> 's" where
  "sim_RetryContext timeout f s = retry_budget timeout None f s"

definition sim_TimedOut :: "err option \<Rightarrow> bool" where
  "sim_TimedOut e = (e = Some (TimeoutError None))"

text \<open>
  The world: the answers the next create calls will get (once they are used up, create
  succeeds), whether the artifact exists, and whether updates are refused.
\<close>

record sim_sc_world =
  create_script :: "(CreateProvisioningArtifactOutput option \<times> err option) list"
  artifact_present :: bool
  update_refused :: bool

definition sim_detail :: ProvisioningArtifactDetail where
  "sim_detail =
     \<lparr>pad_Active = Some True, pad_CreatedTime = Some 0, pad_Description = Some ''first version'',
      pad_Guidance = Some ''DEFAULT'', pad_Id = Some ''pa-1'', pad_Name = Some ''v1'',
      pad_Type = Some ''CLOUD_FORMATION_TEMPLATE''\<rparr>"

definition sim_profile_missing :: err where
  "sim_profile_missing = AwsErr ''InvalidParametersException'' ''The profile does not exist yet''"

definition sim_sc :: "(sim_sc_world, pa_parameters) sc_env" where
  "sim_sc =
     \<lparr>CreateProvisioningArtifactWithContext = (\<lambda>input w.
          case create_script w of
            [] \<Rightarrow> ((Some \<lparr>cpo_ProvisioningArtifactDetail = Some sim_detail\<rparr>, None),
                   w\<lparr>artifact_present := True\<rparr>)
          | r # rs \<Rightarrow> (r, w\<lparr>create_script := rs,
                              artifact_present := (artifact_present w \<or> snd r = None)\<rparr>)),
      UpdateProvisioningArtifactWithContext = (\<lambda>input w.
          if update_refused w then (Some sim_profile_missing, w)
          else if artifact_present w then (None, w)
          else (Some (AwsErr ''ResourceNotFoundException'' ''no such artifact''), w)),
      DeleteProvisioningArtifactWithContext = (\<lambda>input w.
          if artifact_present w then (None, w\<lparr>artifact_present := False\<rparr>)
          else (Some (AwsErr ''ResourceNotFoundException'' ''no such artifact''), w)),
      WaitProvisioningArtifactReady = (\<lambda>artifactID productID timeout w.
          if artifact_present w
          then ((Some \<lparr>dpo_Info = [(''LoadTemplateFromURL'', Some ''https://example.com/t.json'')],
                       dpo_ProvisioningArtifactDetail = Some sim_detail\<rparr>, None), w)
          else ((None, Some (AwsErr ''ResourceNotFoundException'' ''no such artifact'')), w)),
      WaitProvisioningArtifactDeleted = (\<lambda>artifactID productID timeout w. (None, w)),
      ProvisioningArtifactID = (\<lambda>artifactID productID. artifactID @ '':'' @ productID),
      ProvisioningArtifactParseID = (\<lambda>ident.
          case Split ident (CHR '':'') of
            [artifactID, productID] \<Rightarrow> Inr (artifactID, productID)
          | _ \<Rightarrow> Inl (PlainErr ''unexpected format'')),
      expandProvisioningArtifactParameters = (\<lambda>p. p),
      UniqueId = (\<lambda>w. (''terraform-1'', w)),
      RetryContext = sim_RetryContext,
      TimedOut = sim_TimedOut,
      FormatRFC3339 = (\<lambda>t. ''1970-01-01T00:00:00Z''),
      ErrCodeInvalidParametersException = ''InvalidParametersException'',
      ErrCodeResourceNotFoundException = ''ResourceNotFoundException''\<rparr>"

definition sim_pa_config :: pa_config where
  "sim_pa_config =
     \<lparr>pa_accept_language = ''en'', pa_active = True, pa_created_time = [],
      pa_description = ''first version'', pa_disable_template_validation = False,
      pa_guidance = ''DEFAULT'', pa_name = ''v1'', pa_product_id = ''prod-1'',
      pa_template_physical_id = [], pa_template_url = ''https://example.com/t.json'',
      pa_type = ''CLOUD_FORMATION_TEMPLATE''\<rparr>"

definition sim_pa :: pa_data where
  "sim_pa =
     \<lparr>pa_id = ''pa-1:prod-1'', pa_prior = sim_pa_config, pa_plan = sim_pa_config,
      pa_is_new = False, pa_timeout_create = Suc (Suc 0), pa_timeout_read = Suc (Suc 0),
      pa_timeout_update = Suc (Suc 0), pa_timeout_delete = Suc (Suc 0)\<rparr>"

definition sim_sc_state ::
  "(CreateProvisioningArtifactOutput option \<times> err option) list \<Rightarrow> bool \<Rightarrow> bool \<Rightarrow>
     (sim_sc_world, pa_parameters) sc_state" where
  "sim_sc_state script present refused =
     \<lparr>sc_calls = [],
      sc_world = \<lparr>create_script = script, artifact_present = present, update_refused = refused\<rparr>,
      var_output = None\<rparr>"

subsection \<open>API Gateway\<close>

text \<open>
  The world tells whether the method response exists. The retry helper of the
  simulation makes a single attempt; each expansion yields one \<open>replace\<close> operation on
  the path it is given; \<open>Quote\<close> puts the string between double quotes, as \<open>%q\<close> does
  for the identifiers of the scenarios (printable ASCII, no quote, no backslash).
\<close>

definition sim_ag :: "bool ag_env" where
  "sim_ag =
     \<lparr>PutMethodResponseWithContext = (\<lambda>input w. (None, True)),
      GetMethodResponseWithContext = (\<lambda>input w.
          if w then (Inr \<lparr>ResponseModels = [(''application/json'', Some ''Empty'')],
                          ResponseParameters = []\<rparr>, w)
          else (Inl (AwsErr ''NotFoundException'' ''no such method response''), w)),
      UpdateMethodResponseWithContext = (\<lambda>input w.
          if w then (None, w)
          else (Some (AwsErr ''NotFoundException'' ''no such method response''), w)),
      DeleteMethodResponseWithContext = (\<lambda>input w.
          if w then (None, False)
          else (Some (AwsErr ''NotFoundException'' ''no such method response''), w)),
      RetryWhenAWSErrCodeEquals = (\<lambda>timeout f codes s. f s),
      expandRequestResponseModelOperations = (\<lambda>d key prefix.
          [\<lparr>po_Op = Some ''replace'', po_Path = Some (''/'' @ prefix), po_Value = None\<rparr>]),
      expandMethodParametersOperations = (\<lambda>d key prefix.
          [\<lparr>po_Op = Some ''replace'', po_Path = Some (''/'' @ prefix), po_Value = None\<rparr>]),
      ErrCodeConflictException = ''ConflictException'',
      ErrCodeNotFoundException = ''NotFoundException'',
      Quote = (\<lambda>str. CHR 0x22 # str @ [CHR 0x22])\<rparr>"

definition sim_mr_config :: mr_config where
  "sim_mr_config =
     \<lparr>rest_api_id = ''api1'', resource_id = ''res1'', http_method = ''GET'',
      status_code = ''200'', response_models = [(''application/json'', ''Empty'')],
      response_parameters = []\<rparr>"

definition sim_mr :: mr_data where
  "sim_mr = \<lparr>mr_id = [], mr_prior = sim_mr_config, mr_plan = sim_mr_config, mr_is_new = False\<rparr>"

section \<open>Notions used in the statements\<close>

text \<open>
  The remote service reports the association as already absent: its answer to the
  removal request carries one of the three codes that
  \<open>deleteVPCEndpointSecurityGroupAssociation\<close> tests for.
\<close>

definition sga_absent :: "'w ec2_env \<Rightarrow> string \<Rightarrow> string \<Rightarrow> 'w \<Rightarrow> bool" where
  "sga_absent env vpcEndpointID securityGroupID w =
     ErrCodeEquals
       (fst (ModifyVpcEndpointWithContext env
               \<lparr>VpcEndpointId = vpcEndpointID, AddSecurityGroupIds = [],
                RemoveSecurityGroupIds = [securityGroupID]\<rparr> w))
       [errCodeInvalidVPCEndpointIdNotFound env, errCodeInvalidGroupNotFound env,
        errCodeInvalidParameter env]"

text \<open>
  The remote service reports the provisioning artifact of a well-formed identifier as
  absent: its answer to the delete request carries \<open>ResourceNotFoundException\<close>.
\<close>

definition pa_absent :: "('w, 'p) sc_env \<Rightarrow> pa_data \<Rightarrow> 'w \<Rightarrow> bool" where
  "pa_absent env d w =
     (case ProvisioningArtifactParseID env (pa_id d) of
        Inl e \<Rightarrow> False
      | Inr (artifactID, productID) \<Rightarrow>
          ErrCodeEquals
            (fst (DeleteProvisioningArtifactWithContext env
                    \<lparr>dpi_AcceptLanguage = GetOk_String (pa_accept_language (pa_plan d)),
                     dpi_ProductId = Some productID,
                     dpi_ProvisioningArtifactId = Some artifactID\<rparr> w))
            [ErrCodeResourceNotFoundException env])"

text \<open>
  The format the importer expects, as its error message documents it:
  \<open>REST-API-ID/RESOURCE-ID/HTTP-METHOD/STATUS-CODE\<close>.
\<close>

definition import_id :: "string \<Rightarrow> string \<Rightarrow> string \<Rightarrow> string \<Rightarrow> string" where
  "import_id restApiID resourceID httpMethod statusCode =
     restApiID @ ''/'' @ resourceID @ ''/'' @ httpMethod @ ''/'' @ statusCode"

text \<open>The calls in the log a provisioning-artifact handler returns (none from a panic).\<close>

definition sc_calls_of ::
  "panic + (Diagnostics \<times> pa_data \<times> ('w, 'p) sc_state) \<Rightarrow> 'p sc_call list" where
  "sc_calls_of r = (case r of Inl p \<Rightarrow> [] | Inr (diags, d, s) \<Rightarrow> sc_calls s)"

section \<open>EC2: the order of the remote calls\<close>

subsection \<open>Which calls each step issues\<close>

lemma mutations_append: "mutations (xs @ ys) = mutations xs @ mutations ys"
  by (simp add: mutations_def)

lemma mutations_Nil: "mutations [] = []"
  by (simp add: mutations_def)

lemma mutations_Cons:
  "mutations (c # cs) = (if is_mutation c then c # mutations cs else mutations cs)"
  by (simp add: mutations_def)

lemma foundDefaultAssociation_iff:
  "foundDefaultAssociation gs x \<longleftrightarrow> x \<in> (\<lambda>g. StringValue (sgi_GroupId g)) ` set gs"
  by (induction gs) auto

lemma callFindVPCEndpointByID_calls:
  "callFindVPCEndpointByID env i s = (r, s') \<Longrightarrow> mutations (calls s') = mutations (calls s)"
  by (auto simp: callFindVPCEndpointByID_def mutations_append mutations_Cons mutations_Nil split: prod.splits)

lemma callFindVPCDefaultSecurityGroup_calls:
  "callFindVPCDefaultSecurityGroup env i s = (r, s') \<Longrightarrow> mutations (calls s') = mutations (calls s)"
  by (auto simp: callFindVPCDefaultSecurityGroup_def mutations_append mutations_Cons mutations_Nil split: prod.splits)


lemma callModifyVpcEndpoint_calls:
  "callModifyVpcEndpoint env i s = (r, s') \<Longrightarrow>
     mutations (calls s') = mutations (calls s) @ [CallModifyVpcEndpoint i]"
  by (auto simp: callModifyVpcEndpoint_def mutations_append mutations_Cons mutations_Nil split: prod.splits)

lemma create_assoc_calls:
  "createVPCEndpointSecurityGroupAssociation env v g s = (r, s') \<Longrightarrow>
     mutations (calls s') = mutations (calls s) @
       [CallModifyVpcEndpoint \<lparr>VpcEndpointId = v, AddSecurityGroupIds = [g], RemoveSecurityGroupIds = []\<rparr>]"
  by (auto simp: createVPCEndpointSecurityGroupAssociation_def Let_def
        split: prod.splits option.splits dest: callModifyVpcEndpoint_calls)

lemma delete_assoc_calls:
  "deleteVPCEndpointSecurityGroupAssociation env v g s = (r, s') \<Longrightarrow>
     mutations (calls s') = mutations (calls s) @
       [CallModifyVpcEndpoint \<lparr>VpcEndpointId = v, AddSecurityGroupIds = [], RemoveSecurityGroupIds = [g]\<rparr>]"
  by (auto simp: deleteVPCEndpointSecurityGroupAssociation_def Let_def
        split: prod.splits option.splits if_splits dest: callModifyVpcEndpoint_calls)




lemma delete_tail_calls:
  "mutations (calls (snd (delete_tail env d s))) =
     mutations (calls s) @
       [CallModifyVpcEndpoint \<lparr>VpcEndpointId = vpc_endpoint_id d,
           AddSecurityGroupIds = [], RemoveSecurityGroupIds = [security_group_id d]\<rparr>]"
proof -
  obtain r s1 where del:
    "deleteVPCEndpointSecurityGroupAssociation env (vpc_endpoint_id d) (security_group_id d) s = (r, s1)"
    by (cases "deleteVPCEndpointSecurityGroupAssociation env (vpc_endpoint_id d) (security_group_id d) s")
  show ?thesis
    using del delete_assoc_calls[OF del] by (cases r) (simp_all add: delete_tail_def)
qed

lemmas ec2_run_defs =
  sim_ec2_def sim_sga_def callFindVPCEndpointByID_def callFindVPCDefaultSecurityGroup_def
  callFindVPCEndpointSecurityGroupAssociationExists_def callModifyVpcEndpoint_def
  createVPCEndpointSecurityGroupAssociation_def deleteVPCEndpointSecurityGroupAssociation_def
  StringValue_def ErrCodeEquals_def mutations_def


subsection \<open>Create with replacement\<close>



text \<open>
  Claim C2. When replacement is requested and the endpoint lookup fails, or the
  default-group lookup fails, or the default group is not among the endpoint's current
  groups, create returns an error diagnostic, leaves the resource data (and so the
  identifier) as it was, and issues no mutating call.
\<close>

theorem create_validation_failure_no_mutation:
  assumes "replace_default_association d"
    and "callFindVPCEndpointByID env (vpc_endpoint_id d) s = (r1, s1)"
    and "case r1 of
           Inl e \<Rightarrow> True
         | Inr ep \<Rightarrow>
             (case callFindVPCDefaultSecurityGroup env (StringValue (VpcId ep)) s1 of
                (Inl e, s2) \<Rightarrow> True
              | (Inr dsg, s2) \<Rightarrow>
                  StringValue (GroupId dsg) \<notin> (\<lambda>g. StringValue (sgi_GroupId g)) ` set (Groups ep))"
  shows "HasError (fst (resourceVPCEndpointSecurityGroupAssociationCreate env d s)) \<and>
         fst (snd (resourceVPCEndpointSecurityGroupAssociationCreate env d s)) = d \<and>
         mutations (calls (snd (snd (resourceVPCEndpointSecurityGroupAssociationCreate env d s)))) =
           mutations (calls s)"
proof (cases r1)
  case (Inl e)
  then show ?thesis
    using assms(1,2) callFindVPCEndpointByID_calls[OF assms(2)]
    by (simp add: resourceVPCEndpointSecurityGroupAssociationCreate_def AppendErrorf_def HasError_def)
next
  case (Inr ep)
  obtain r2 s2 where f2: "callFindVPCDefaultSecurityGroup env (StringValue (VpcId ep)) s1 = (r2, s2)"
    by (cases "callFindVPCDefaultSecurityGroup env (StringValue (VpcId ep)) s1")
  have base: "mutations (calls s2) = mutations (calls s)"
    using callFindVPCEndpointByID_calls[OF assms(2)] callFindVPCDefaultSecurityGroup_calls[OF f2]
    by simp
  show ?thesis
  proof (cases r2)
    case (Inl e)
    then show ?thesis
      using assms(1,2) Inr f2 base
      by (simp add: resourceVPCEndpointSecurityGroupAssociationCreate_def AppendErrorf_def HasError_def)
  next
    case (Inr dsg)
    with assms(3) \<open>r1 = Inr ep\<close> f2
    have "\<not> foundDefaultAssociation (Groups ep) (StringValue (GroupId dsg))"
      by (simp add: foundDefaultAssociation_iff)
    then show ?thesis
      using assms(1,2) Inr \<open>r1 = Inr ep\<close> f2 base
      by (simp add: resourceVPCEndpointSecurityGroupAssociationCreate_def AppendErrorf_def HasError_def
            Let_def)
  qed
qed

theorem create_validation_failure_no_mutation_witness:
  "HasError (fst (resourceVPCEndpointSecurityGroupAssociationCreate sim_ec2 sim_sga
      \<lparr>calls = [], world = ([''sg-1''], False)\<rparr>)) \<and>
   fst (snd (resourceVPCEndpointSecurityGroupAssociationCreate sim_ec2 sim_sga
      \<lparr>calls = [], world = ([''sg-1''], False)\<rparr>)) = sim_sga \<and>
   mutations (calls (snd (snd (resourceVPCEndpointSecurityGroupAssociationCreate sim_ec2 sim_sga
      \<lparr>calls = [], world = ([''sg-1''], False)\<rparr>)))) = []"
proof -
  let ?s = "\<lparr>calls = [], world = ([''sg-1''], False)\<rparr> :: (string list \<times> bool) ec2_state"
  let ?ep = "\<lparr>VpcId = Some ''vpc-1'', Groups = [\<lparr>sgi_GroupId = Some ''sg-1''\<rparr>]\<rparr>"
  let ?s1 = "\<lparr>calls = [CallFindVPCEndpointByID ''vpce-1''], world = ([''sg-1''], False)\<rparr>"
  have h1: "replace_default_association sim_sga" by (simp add: sim_sga_def)
  have h2: "callFindVPCEndpointByID sim_ec2 (vpc_endpoint_id sim_sga) ?s = (Inr ?ep, ?s1)"
    by (simp add: ec2_run_defs)
  have h3: "case Inr ?ep of
           Inl e \<Rightarrow> True
         | Inr ep \<Rightarrow>
             (case callFindVPCDefaultSecurityGroup sim_ec2 (StringValue (VpcId ep)) ?s1 of
                (Inl e, s2) \<Rightarrow> True
              | (Inr dsg, s2) \<Rightarrow>
                  StringValue (GroupId dsg) \<notin> (\<lambda>g. StringValue (sgi_GroupId g)) ` set (Groups ep))"
    by (simp add: ec2_run_defs)
  from create_validation_failure_no_mutation[OF h1 h2 h3] show ?thesis
    by (simp add: mutations_def)
qed

text \<open>
  Claim C9. When replacement is requested and the requested security group is itself
  the VPC's default security group, create fails with the error diagnostic that says
  so, with the resource data unchanged and no mutating call issued.
\<close>

theorem create_default_group_rejected:
  assumes "replace_default_association d"
    and "callFindVPCEndpointByID env (vpc_endpoint_id d) s = (Inr ep, s1)"
    and "callFindVPCDefaultSecurityGroup env (StringValue (VpcId ep)) s1 = (Inr dsg, s2)"
    and "StringValue (GroupId dsg) = security_group_id d"
  shows "resourceVPCEndpointSecurityGroupAssociationCreate env d s =
           ([ErrorDiag (security_group_id d @ '' is the default Security Group for EC2 VPC ('' @
                        StringValue (VpcId ep) @ '')'')], d, s2) \<and>
         mutations (calls s2) = mutations (calls s)"
  using assms callFindVPCEndpointByID_calls[OF assms(2)] callFindVPCDefaultSecurityGroup_calls[OF assms(3)]
  by (simp add: resourceVPCEndpointSecurityGroupAssociationCreate_def AppendErrorf_def)

theorem create_default_group_rejected_witness:
  "resourceVPCEndpointSecurityGroupAssociationCreate sim_ec2
     (sim_sga\<lparr>security_group_id := ''sg-default''\<rparr>)
     \<lparr>calls = [], world = ([''sg-default''], False)\<rparr> =
   ([ErrorDiag ''sg-default is the default Security Group for EC2 VPC (vpc-1)''],
    sim_sga\<lparr>security_group_id := ''sg-default''\<rparr>,
    \<lparr>calls = [CallFindVPCEndpointByID ''vpce-1'', CallFindVPCDefaultSecurityGroup ''vpc-1''],
     world = ([''sg-default''], False)\<rparr>)"
proof -
  let ?d = "sim_sga\<lparr>security_group_id := ''sg-default''\<rparr>"
  let ?s = "\<lparr>calls = [], world = ([''sg-default''], False)\<rparr> :: (string list \<times> bool) ec2_state"
  let ?ep = "\<lparr>VpcId = Some ''vpc-1'', Groups = [\<lparr>sgi_GroupId = Some ''sg-default''\<rparr>]\<rparr>"
  let ?s1 = "\<lparr>calls = [CallFindVPCEndpointByID ''vpce-1''], world = ([''sg-default''], False)\<rparr>"
  let ?dsg = "\<lparr>GroupId = Some ''sg-default''\<rparr>"
  let ?s2 = "\<lparr>calls = [CallFindVPCEndpointByID ''vpce-1'', CallFindVPCDefaultSecurityGroup ''vpc-1''],
              world = ([''sg-default''], False)\<rparr>"
  have h1: "replace_default_association ?d" by (simp add: sim_sga_def)
  have h2: "callFindVPCEndpointByID sim_ec2 (vpc_endpoint_id ?d) ?s = (Inr ?ep, ?s1)"
    by (simp add: ec2_run_defs)
  have h3: "callFindVPCDefaultSecurityGroup sim_ec2 (StringValue (VpcId ?ep)) ?s1 = (Inr ?dsg, ?s2)"
    by (simp add: ec2_run_defs)
  have h4: "StringValue (GroupId ?dsg) = security_group_id ?d"
    by (simp add: ec2_run_defs)
  from create_default_group_rejected[OF h1 h2 h3 h4] show ?thesis
    by (simp add: StringValue_def)
qed

subsection \<open>Delete with replacement\<close>

text \<open>
  Claim C3. When the resource was created with replacement, delete first adds the
  default security group back and only then removes the managed association, the
  reverse of create. When adding the default group back fails, delete stops there: it
  reports that error, and the restore request is its only mutating call, so the managed
  association stays in place.
\<close>

theorem delete_restore_then_remove:
  assumes "replace_default_association d"
    and "callFindVPCEndpointByID env (vpc_endpoint_id d) s = (Inr ep, s1)"
    and "callFindVPCDefaultSecurityGroup env (StringValue (VpcId ep)) s1 = (Inr dsg, s2)"
  shows
    "(\<forall>e s3. createVPCEndpointSecurityGroupAssociation env
                (vpc_endpoint_id d) (StringValue (GroupId dsg)) s2 = (Some e, s3) \<longrightarrow>
        resourceVPCEndpointSecurityGroupAssociationDelete env d s = ([ErrorDiag (Error e)], s3) \<and>
        mutations (calls s3) = mutations (calls s) @
          [CallModifyVpcEndpoint \<lparr>VpcEndpointId = vpc_endpoint_id d,
              AddSecurityGroupIds = [StringValue (GroupId dsg)], RemoveSecurityGroupIds = []\<rparr>]) \<and>
     (\<forall>s3. createVPCEndpointSecurityGroupAssociation env
                (vpc_endpoint_id d) (StringValue (GroupId dsg)) s2 = (None, s3) \<longrightarrow>
        mutations (calls (snd (resourceVPCEndpointSecurityGroupAssociationDelete env d s))) =
          mutations (calls s) @
            [CallModifyVpcEndpoint \<lparr>VpcEndpointId = vpc_endpoint_id d,
                AddSecurityGroupIds = [StringValue (GroupId dsg)], RemoveSecurityGroupIds = []\<rparr>,
             CallModifyVpcEndpoint \<lparr>VpcEndpointId = vpc_endpoint_id d,
                AddSecurityGroupIds = [], RemoveSecurityGroupIds = [security_group_id d]\<rparr>])"
proof -
  have base: "mutations (calls s2) = mutations (calls s)"
    using callFindVPCEndpointByID_calls[OF assms(2)] callFindVPCDefaultSecurityGroup_calls[OF assms(3)]
    by simp
  show ?thesis
    using assms base
    by (auto simp: resourceVPCEndpointSecurityGroupAssociationDelete_def AppendFromErr_def
          delete_tail_calls dest: create_assoc_calls)
qed

theorem delete_restore_then_remove_witness:
  "resourceVPCEndpointSecurityGroupAssociationDelete sim_ec2 sim_sga
     \<lparr>calls = [], world = ([''sg-2'', ''sg-3''], False)\<rparr> =
   ([ErrorDiag ''creating VPC Endpoint (vpce-1) Security Group (sg-default) Association: SecurityGroupLimitExceeded: too many groups''],
    \<lparr>calls = [CallFindVPCEndpointByID ''vpce-1'', CallFindVPCDefaultSecurityGroup ''vpc-1'',
              CallModifyVpcEndpoint \<lparr>VpcEndpointId = ''vpce-1'', AddSecurityGroupIds = [''sg-default''],
                                     RemoveSecurityGroupIds = []\<rparr>],
     world = ([''sg-2'', ''sg-3''], False)\<rparr>)"
proof -
  let ?s = "\<lparr>calls = [], world = ([''sg-2'', ''sg-3''], False)\<rparr> :: (string list \<times> bool) ec2_state"
  let ?ep = "\<lparr>VpcId = Some ''vpc-1'',
              Groups = [\<lparr>sgi_GroupId = Some ''sg-2''\<rparr>, \<lparr>sgi_GroupId = Some ''sg-3''\<rparr>]\<rparr>"
  let ?s1 = "\<lparr>calls = [CallFindVPCEndpointByID ''vpce-1''], world = ([''sg-2'', ''sg-3''], False)\<rparr>"
  let ?dsg = "\<lparr>GroupId = Some ''sg-default''\<rparr>"
  let ?s2 = "\<lparr>calls = [CallFindVPCEndpointByID ''vpce-1'', CallFindVPCDefaultSecurityGroup ''vpc-1''],
              world = ([''sg-2'', ''sg-3''], False)\<rparr>"
  let ?s3 = "\<lparr>calls = [CallFindVPCEndpointByID ''vpce-1'', CallFindVPCDefaultSecurityGroup ''vpc-1'',
              CallModifyVpcEndpoint \<lparr>VpcEndpointId = ''vpce-1'', AddSecurityGroupIds = [''sg-default''],
                                     RemoveSecurityGroupIds = []\<rparr>],
              world = ([''sg-2'', ''sg-3''], False)\<rparr>"
  let ?e = "Wrapped ''creating VPC Endpoint (vpce-1) Security Group (sg-default) Association: ''
              (AwsErr ''SecurityGroupLimitExceeded'' ''too many groups'')"
  have h1: "replace_default_association sim_sga" by (simp add: sim_sga_def)
  have h2: "callFindVPCEndpointByID sim_ec2 (vpc_endpoint_id sim_sga) ?s = (Inr ?ep, ?s1)"
    by (simp add: ec2_run_defs)
  have h3: "callFindVPCDefaultSecurityGroup sim_ec2 (StringValue (VpcId ?ep)) ?s1 = (Inr ?dsg, ?s2)"
    by (simp add: ec2_run_defs)
  have a: "createVPCEndpointSecurityGroupAssociation sim_ec2 (vpc_endpoint_id sim_sga)
             (StringValue (GroupId ?dsg)) ?s2 = (Some ?e, ?s3)"
    by (simp add: ec2_run_defs)
  from delete_restore_then_remove[OF h1 h2 h3] a
  have "resourceVPCEndpointSecurityGroupAssociationDelete sim_ec2 sim_sga ?s = ([ErrorDiag (Error ?e)], ?s3)"
    by blast
  then show ?thesis by simp
qed

section \<open>Deleting what is already absent\<close>

lemmas sc_run_defs =
  sim_sc_def sim_pa_def sim_pa_config_def sim_sc_state_def sim_TimedOut_def sim_profile_missing_def
  sim_RetryContext_def
  sim_detail_def
  callCreateProvisioningArtifact_def callUpdateProvisioningArtifact_def
  callDeleteProvisioningArtifact_def callWaitProvisioningArtifactReady_def
  callWaitProvisioningArtifactDeleted_def
  create_closure_def create_direct_def update_closure_def classify_def createInput_def updateInput_def
  ErrMessageContains_def ErrCodeEquals_def GetOk_String_def HasChanges_def HasChange_def

lemma sga_delete_absent:
  "sga_absent env v g (world s) \<Longrightarrow> fst (deleteVPCEndpointSecurityGroupAssociation env v g s) = None"
  by (auto simp: sga_absent_def deleteVPCEndpointSecurityGroupAssociation_def callModifyVpcEndpoint_def
        Let_def split: prod.splits)

lemma pa_delete_absent:
  "pa_absent env d (sc_world s) \<Longrightarrow> fst (resourceProvisioningArtifactDelete env d s) = []"
  by (auto simp: pa_absent_def resourceProvisioningArtifactDelete_def callDeleteProvisioningArtifact_def
        Let_def split: prod.splits sum.splits)

text \<open>
  Claim C4. When the remote service answers the delete call with one of its
  already-absent codes, delete returns success, not an error: the helper
  \<open>deleteVPCEndpointSecurityGroupAssociation\<close> returns nil on the three codes it tests
  for, and the provisioning artifact's delete returns no diagnostic on
  \<open>ResourceNotFoundException\<close>. Calling delete again on a resource that is still
  reported absent succeeds again.
\<close>

theorem delete_tolerates_absent:
  "(sga_absent env v g (world s) \<longrightarrow>
      fst (deleteVPCEndpointSecurityGroupAssociation env v g s) = None \<and>
      (sga_absent env v g (world (snd (deleteVPCEndpointSecurityGroupAssociation env v g s))) \<longrightarrow>
         fst (deleteVPCEndpointSecurityGroupAssociation env v g
                (snd (deleteVPCEndpointSecurityGroupAssociation env v g s))) = None)) \<and>
   (pa_absent env' d (sc_world s') \<longrightarrow>
      fst (resourceProvisioningArtifactDelete env' d s') = [] \<and>
      (pa_absent env' d (sc_world (snd (resourceProvisioningArtifactDelete env' d s'))) \<longrightarrow>
         fst (resourceProvisioningArtifactDelete env' d
                (snd (resourceProvisioningArtifactDelete env' d s'))) = []))"
  by (simp add: sga_delete_absent pa_delete_absent)

theorem delete_tolerates_absent_witness:
  "fst (deleteVPCEndpointSecurityGroupAssociation sim_ec2 ''vpce-1'' ''sg-2''
          \<lparr>calls = [], world = ([''sg-default''], False)\<rparr>) = None \<and>
   fst (deleteVPCEndpointSecurityGroupAssociation sim_ec2 ''vpce-1'' ''sg-2''
          (snd (deleteVPCEndpointSecurityGroupAssociation sim_ec2 ''vpce-1'' ''sg-2''
                  \<lparr>calls = [], world = ([''sg-default''], False)\<rparr>))) = None \<and>
   fst (resourceProvisioningArtifactDelete sim_sc sim_pa (sim_sc_state [] False False)) = [] \<and>
   fst (resourceProvisioningArtifactDelete sim_sc sim_pa
          (snd (resourceProvisioningArtifactDelete sim_sc sim_pa (sim_sc_state [] False False)))) = []"
proof -
  let ?s = "\<lparr>calls = [], world = ([''sg-default''], False)\<rparr> :: (string list \<times> bool) ec2_state"
  let ?t = "sim_sc_state [] False False"
  have d1: "deleteVPCEndpointSecurityGroupAssociation sim_ec2 ''vpce-1'' ''sg-2'' ?s =
       (None, \<lparr>calls = [CallModifyVpcEndpoint \<lparr>VpcEndpointId = ''vpce-1'', AddSecurityGroupIds = [],
                            RemoveSecurityGroupIds = [''sg-2'']\<rparr>], world = ([''sg-default''], False)\<rparr>)"
    by (simp add: ec2_run_defs)
  have a1: "sga_absent sim_ec2 ''vpce-1'' ''sg-2'' (world ?s)"
    by (simp add: sga_absent_def sim_ec2_def ErrCodeEquals_def)
  have a2: "sga_absent sim_ec2 ''vpce-1'' ''sg-2''
              (world (snd (deleteVPCEndpointSecurityGroupAssociation sim_ec2 ''vpce-1'' ''sg-2'' ?s)))"
    unfolding d1 by (simp add: sga_absent_def sim_ec2_def ErrCodeEquals_def)
  have sp: "Split ''pa-1:prod-1'' (CHR '':'') = [''pa-1'', ''prod-1'']" by simp
  have d2: "resourceProvisioningArtifactDelete sim_sc sim_pa ?t =
       ([], \<lparr>sc_calls = [CallDeleteProvisioningArtifact
                \<lparr>dpi_AcceptLanguage = Some ''en'', dpi_ProductId = Some ''prod-1'',
                 dpi_ProvisioningArtifactId = Some ''pa-1''\<rparr>],
             sc_world = \<lparr>create_script = [], artifact_present = False, update_refused = False\<rparr>,
             var_output = None\<rparr>)"
    by (simp add: resourceProvisioningArtifactDelete_def sc_run_defs sp)
  have b1: "pa_absent sim_sc sim_pa (sc_world ?t)"
    by (simp add: pa_absent_def sc_run_defs sp)
  have b2: "pa_absent sim_sc sim_pa (sc_world (snd (resourceProvisioningArtifactDelete sim_sc sim_pa ?t)))"
    unfolding d2 by (simp add: pa_absent_def sc_run_defs sp)
  from delete_tolerates_absent[of sim_ec2 "''vpce-1''" "''sg-2''" ?s sim_sc sim_pa ?t] a1 a2 b1 b2
  show ?thesis by blast
qed

section \<open>Service Catalog: the direct attempt after a timeout\<close>

lemma and_then_Inr: "and_then m Inr = m"
  by (simp add: and_then_def split: sum.splits)

lemma create_timed_out:
  assumes "UniqueId env (sc_world s) = (token, w0)"
    and "RetryContext env (pa_timeout_create d) (create_closure env (createInput env d token))
           (s\<lparr>sc_world := w0, var_output := None\<rparr>) = (terr, s1)"
    and "TimedOut env terr"
    and "CreateProvisioningArtifactWithContext env (createInput env d token) (sc_world s1) = ((out, e), w2)"
  shows "resourceProvisioningArtifactCreate env d s =
           (case e of
              Some x \<Rightarrow>
                Inr ([ErrorDiag (''creating Service Catalog Provisioning Artifact: '' @ Error x)], d,
                     s1\<lparr>sc_calls := sc_calls s1 @ [CallCreateProvisioningArtifact (createInput env d token)],
                        sc_world := w2, var_output := out\<rparr>)
            | None \<Rightarrow>
                create_finish env d
                  (s1\<lparr>sc_calls := sc_calls s1 @ [CallCreateProvisioningArtifact (createInput env d token)],
                      sc_world := w2, var_output := out\<rparr>))"
  using assms
  by (simp add: resourceProvisioningArtifactCreate_def create_attempts_def create_direct_def
        callCreateProvisioningArtifact_def AppendErrorf_def split: option.splits)

lemma update_timed_out:
  assumes "HasChanges d [K_accept_language, K_active, K_description, K_guidance, K_name, K_product_id]"
    and "ProvisioningArtifactParseID env (pa_id d) = Inr (artifactID, productID)"
    and "RetryContext env (pa_timeout_update d)
           (update_closure env (updateInput d artifactID productID)) s = (terr, s1)"
    and "TimedOut env terr"
    and "UpdateProvisioningArtifactWithContext env (updateInput d artifactID productID) (sc_world s1) = (e, w2)"
  shows "resourceProvisioningArtifactUpdate env d s =
           (case e of
              Some x \<Rightarrow>
                Inr ([ErrorDiag (''updating Service Catalog Provisioning Artifact ('' @ pa_id d @
                                 ''): '' @ Error x)], d,
                     s1\<lparr>sc_calls := sc_calls s1 @
                          [CallUpdateProvisioningArtifact (updateInput d artifactID productID)],
                        sc_world := w2\<rparr>)
            | None \<Rightarrow>
                resourceProvisioningArtifactRead env d
                  (s1\<lparr>sc_calls := sc_calls s1 @
                        [CallUpdateProvisioningArtifact (updateInput d artifactID productID)],
                      sc_world := w2\<rparr>))"
  using assms
  by (simp add: resourceProvisioningArtifactUpdate_def callUpdateProvisioningArtifact_def
        AppendErrorf_def and_then_Inr split: option.splits)

lemma create_not_timed_out:
  assumes "UniqueId env (sc_world s) = (token, w0)"
    and "RetryContext env (pa_timeout_create d) (create_closure env (createInput env d token))
           (s\<lparr>sc_world := w0, var_output := None\<rparr>) = (terr, s1)"
    and "\<not> TimedOut env terr"
  shows "resourceProvisioningArtifactCreate env d s =
           (case terr of
              Some x \<Rightarrow>
                Inr ([ErrorDiag (''creating Service Catalog Provisioning Artifact: '' @ Error x)], d, s1)
            | None \<Rightarrow> create_finish env d s1)"
  using assms
  by (simp add: resourceProvisioningArtifactCreate_def create_attempts_def AppendErrorf_def
        split: option.splits)

lemma update_not_timed_out:
  assumes "HasChanges d [K_accept_language, K_active, K_description, K_guidance, K_name, K_product_id]"
    and "ProvisioningArtifactParseID env (pa_id d) = Inr (artifactID, productID)"
    and "RetryContext env (pa_timeout_update d)
           (update_closure env (updateInput d artifactID productID)) s = (terr, s1)"
    and "\<not> TimedOut env terr"
  shows "resourceProvisioningArtifactUpdate env d s =
           (case terr of
              Some x \<Rightarrow>
                Inr ([ErrorDiag (''updating Service Catalog Provisioning Artifact ('' @ pa_id d @
                                 ''): '' @ Error x)], d, s1)
            | None \<Rightarrow> resourceProvisioningArtifactRead env d s1)"
  using assms
  by (simp add: resourceProvisioningArtifactUpdate_def AppendErrorf_def and_then_Inr
        split: option.splits)

text \<open>
  Claim C5, as amended. In create and in update of the provisioning artifact the
  additional direct call is gated by \<open>tfresource.TimedOut\<close>. When the retry phase
  (\<open>resource.RetryContext\<close>) ends with an error that \<open>TimedOut\<close> accepts, the handler
  issues exactly one more remote call, directly, with the same request: it goes on from
  the state the retry phase left with that one call appended, and its result is that
  attempt's (its error is the one reported, not the timeout; after its success create
  goes on with its output and update with the read). When the retry phase ends with any
  other error, as it does with the last retryable error once the budget is spent on
  retryable errors, the handler issues no further call and reports that error.
\<close>

theorem direct_attempt_only_after_timeout:
  "(UniqueId env (sc_world s) = (token, w0) \<and>
    RetryContext env (pa_timeout_create d) (create_closure env (createInput env d token))
      (s\<lparr>sc_world := w0, var_output := None\<rparr>) = (terr, s1) \<and>
    CreateProvisioningArtifactWithContext env (createInput env d token) (sc_world s1) =
      ((out, e), w2) \<longrightarrow>
      resourceProvisioningArtifactCreate env d s =
        (if TimedOut env terr
         then (case e of
                 Some x \<Rightarrow>
                   Inr ([ErrorDiag (''creating Service Catalog Provisioning Artifact: '' @ Error x)], d,
                        s1\<lparr>sc_calls := sc_calls s1 @
                               [CallCreateProvisioningArtifact (createInput env d token)],
                           sc_world := w2, var_output := out\<rparr>)
               | None \<Rightarrow>
                   create_finish env d
                     (s1\<lparr>sc_calls := sc_calls s1 @
                            [CallCreateProvisioningArtifact (createInput env d token)],
                         sc_world := w2, var_output := out\<rparr>))
         else (case terr of
                 Some x \<Rightarrow>
                   Inr ([ErrorDiag (''creating Service Catalog Provisioning Artifact: '' @ Error x)], d, s1)
               | None \<Rightarrow> create_finish env d s1))) \<and>
   (HasChanges d' [K_accept_language, K_active, K_description, K_guidance, K_name, K_product_id] \<and>
    ProvisioningArtifactParseID env (pa_id d') = Inr (artifactID, productID) \<and>
    RetryContext env (pa_timeout_update d')
      (update_closure env (updateInput d' artifactID productID)) s' = (terr', s1') \<and>
    UpdateProvisioningArtifactWithContext env (updateInput d' artifactID productID) (sc_world s1') =
      (e', w2') \<longrightarrow>
      resourceProvisioningArtifactUpdate env d' s' =
        (if TimedOut env terr'
         then (case e' of
                 Some x \<Rightarrow>
                   Inr ([ErrorDiag (''updating Service Catalog Provisioning Artifact ('' @ pa_id d' @
                                    ''): '' @ Error x)], d',
                        s1'\<lparr>sc_calls := sc_calls s1' @
                                [CallUpdateProvisioningArtifact (updateInput d' artifactID productID)],
                            sc_world := w2'\<rparr>)
               | None \<Rightarrow>
                   resourceProvisioningArtifactRead env d'
                     (s1'\<lparr>sc_calls := sc_calls s1' @
                             [CallUpdateProvisioningArtifact (updateInput d' artifactID productID)],
                          sc_world := w2'\<rparr>))
         else (case terr' of
                 Some x \<Rightarrow>
                   Inr ([ErrorDiag (''updating Service Catalog Provisioning Artifact ('' @ pa_id d' @
                                    ''): '' @ Error x)], d', s1')
               | None \<Rightarrow> resourceProvisioningArtifactRead env d' s1')))"
proof (intro conjI impI)
  assume h: "UniqueId env (sc_world s) = (token, w0) \<and>
    RetryContext env (pa_timeout_create d) (create_closure env (createInput env d token))
      (s\<lparr>sc_world := w0, var_output := None\<rparr>) = (terr, s1) \<and>
    CreateProvisioningArtifactWithContext env (createInput env d token) (sc_world s1) =
      ((out, e), w2)"
  show "resourceProvisioningArtifactCreate env d s =
        (if TimedOut env terr
         then (case e of
                 Some x \<Rightarrow>
                   Inr ([ErrorDiag (''creating Service Catalog Provisioning Artifact: '' @ Error x)], d,
                        s1\<lparr>sc_calls := sc_calls s1 @
                               [CallCreateProvisioningArtifact (createInput env d token)],
                           sc_world := w2, var_output := out\<rparr>)
               | None \<Rightarrow>
                   create_finish env d
                     (s1\<lparr>sc_calls := sc_calls s1 @
                            [CallCreateProvisioningArtifact (createInput env d token)],
                         sc_world := w2, var_output := out\<rparr>))
         else (case terr of
                 Some x \<Rightarrow>
                   Inr ([ErrorDiag (''creating Service Catalog Provisioning Artifact: '' @ Error x)], d, s1)
               | None \<Rightarrow> create_finish env d s1))"
  proof (cases "TimedOut env terr")
    case True
    with h create_timed_out[of env s token w0 d terr s1 out e w2] show ?thesis by simp
  next
    case False
    with h create_not_timed_out[of env s token w0 d terr s1] show ?thesis by simp
  qed
next
  assume h: "HasChanges d' [K_accept_language, K_active, K_description, K_guidance, K_name, K_product_id] \<and>
    ProvisioningArtifactParseID env (pa_id d') = Inr (artifactID, productID) \<and>
    RetryContext env (pa_timeout_update d')
      (update_closure env (updateInput d' artifactID productID)) s' = (terr', s1') \<and>
    UpdateProvisioningArtifactWithContext env (updateInput d' artifactID productID) (sc_world s1') =
      (e', w2')"
  show "resourceProvisioningArtifactUpdate env d' s' =
        (if TimedOut env terr'
         then (case e' of
                 Some x \<Rightarrow>
                   Inr ([ErrorDiag (''updating Service Catalog Provisioning Artifact ('' @ pa_id d' @
                                    ''): '' @ Error x)], d',
                        s1'\<lparr>sc_calls := sc_calls s1' @
                                [CallUpdateProvisioningArtifact (updateInput d' artifactID productID)],
                            sc_world := w2'\<rparr>)
               | None \<Rightarrow>
                   resourceProvisioningArtifactRead env d'
                     (s1'\<lparr>sc_calls := sc_calls s1' @
                             [CallUpdateProvisioningArtifact (updateInput d' artifactID productID)],
                          sc_world := w2'\<rparr>))
         else (case terr' of
                 Some x \<Rightarrow>
                   Inr ([ErrorDiag (''updating Service Catalog Provisioning Artifact ('' @ pa_id d' @
                                    ''): '' @ Error x)], d', s1')
               | None \<Rightarrow> resourceProvisioningArtifactRead env d' s1'))"
  proof (cases "TimedOut env terr'")
    case True
    with h update_timed_out[of d' env artifactID productID s' terr' s1' e' w2'] show ?thesis by simp
  next
    case False
    with h update_not_timed_out[of d' env artifactID productID s' terr' s1'] show ?thesis by simp
  qed
qed

theorem direct_attempt_only_after_timeout_witness:
  "resourceProvisioningArtifactCreate sim_sc
     (sim_pa\<lparr>pa_id := [], pa_is_new := True, pa_timeout_create := 0\<rparr>)
     (sim_sc_state [] False False) =
   create_finish sim_sc (sim_pa\<lparr>pa_id := [], pa_is_new := True, pa_timeout_create := 0\<rparr>)
     \<lparr>sc_calls = [CallCreateProvisioningArtifact
                    (createInput sim_sc
                       (sim_pa\<lparr>pa_id := [], pa_is_new := True, pa_timeout_create := 0\<rparr>)
                       ''terraform-1'')],
      sc_world = \<lparr>create_script = [], artifact_present = True, update_refused = False\<rparr>,
      var_output = Some \<lparr>cpo_ProvisioningArtifactDetail = Some sim_detail\<rparr>\<rparr> \<and>
   resourceProvisioningArtifactCreate sim_sc (sim_pa\<lparr>pa_id := [], pa_is_new := True\<rparr>)
     (sim_sc_state [(None, Some sim_profile_missing), (None, Some sim_profile_missing)] False False) =
   Inr ([ErrorDiag ''creating Service Catalog Provisioning Artifact: InvalidParametersException: The profile does not exist yet''],
        sim_pa\<lparr>pa_id := [], pa_is_new := True\<rparr>,
        \<lparr>sc_calls = replicate 2 (CallCreateProvisioningArtifact
                       (createInput sim_sc (sim_pa\<lparr>pa_id := [], pa_is_new := True\<rparr>) ''terraform-1'')),
         sc_world = \<lparr>create_script = [], artifact_present = False, update_refused = False\<rparr>,
         var_output = None\<rparr>) \<and>
   resourceProvisioningArtifactUpdate sim_sc
     (sim_pa\<lparr>pa_plan := sim_pa_config\<lparr>pa_description := ''second''\<rparr>, pa_timeout_update := 0\<rparr>)
     (sim_sc_state [] True True) =
   Inr ([ErrorDiag ''updating Service Catalog Provisioning Artifact (pa-1:prod-1): InvalidParametersException: The profile does not exist yet''],
        sim_pa\<lparr>pa_plan := sim_pa_config\<lparr>pa_description := ''second''\<rparr>, pa_timeout_update := 0\<rparr>,
        \<lparr>sc_calls = [CallUpdateProvisioningArtifact
                       (updateInput
                          (sim_pa\<lparr>pa_plan := sim_pa_config\<lparr>pa_description := ''second''\<rparr>,
                                  pa_timeout_update := 0\<rparr>)
                          ''pa-1'' ''prod-1'')],
         sc_world = \<lparr>create_script = [], artifact_present = True, update_refused = True\<rparr>,
         var_output = None\<rparr>) \<and>
   resourceProvisioningArtifactUpdate sim_sc
     (sim_pa\<lparr>pa_plan := sim_pa_config\<lparr>pa_description := ''second''\<rparr>\<rparr>)
     (sim_sc_state [] True True) =
   Inr ([ErrorDiag ''updating Service Catalog Provisioning Artifact (pa-1:prod-1): InvalidParametersException: The profile does not exist yet''],
        sim_pa\<lparr>pa_plan := sim_pa_config\<lparr>pa_description := ''second''\<rparr>\<rparr>,
        \<lparr>sc_calls = replicate 2 (CallUpdateProvisioningArtifact
                       (updateInput (sim_pa\<lparr>pa_plan := sim_pa_config\<lparr>pa_description := ''second''\<rparr>\<rparr>)
                          ''pa-1'' ''prod-1'')),
         sc_world = \<lparr>create_script = [], artifact_present = True, update_refused = True\<rparr>,
         var_output = None\<rparr>)"
proof -
  have pm: "Contains ''The profile does not exist yet'' ''profile does not exist''"
    by simp
  have sp: "Split ''pa-1:prod-1'' (CHR '':'') = [''pa-1'', ''prod-1'']" by simp
  have to: "TimedOut sim_sc (Some (TimeoutError None))"
    by (simp add: sim_sc_def sim_TimedOut_def)
  have nto: "\<not> TimedOut sim_sc (Some sim_profile_missing)"
    by (simp add: sim_sc_def sim_TimedOut_def sim_profile_missing_def)

  \<comment> \<open>create, no attempt returned within the budget\<close>
  let ?dA = "sim_pa\<lparr>pa_id := [], pa_is_new := True, pa_timeout_create := 0\<rparr>"
  let ?sA = "sim_sc_state [] False False"
  let ?w0A = "\<lparr>create_script = [], artifact_present = False, update_refused = False\<rparr>"
  let ?ciA = "createInput sim_sc ?dA ''terraform-1''"
  let ?s1A = "\<lparr>sc_calls = [], sc_world = ?w0A, var_output = None\<rparr>
                :: (sim_sc_world, pa_parameters) sc_state"
  let ?out = "Some \<lparr>cpo_ProvisioningArtifactDetail = Some sim_detail\<rparr>"
  let ?w2 = "\<lparr>create_script = [], artifact_present = True, update_refused = False\<rparr>"
  have a1: "UniqueId sim_sc (sc_world ?sA) = (''terraform-1'', ?w0A)"
    by (simp add: sim_sc_def sim_sc_state_def)
  have a2: "RetryContext sim_sc (pa_timeout_create ?dA) (create_closure sim_sc ?ciA)
              (?sA\<lparr>sc_world := ?w0A, var_output := None\<rparr>) = (Some (TimeoutError None), ?s1A)"
    by (simp add: sim_sc_def sim_pa_def sim_sc_state_def sim_RetryContext_def)
  have a3: "CreateProvisioningArtifactWithContext sim_sc ?ciA (sc_world ?s1A) = ((?out, None), ?w2)"
    by (simp add: sim_sc_def)
  have A: "resourceProvisioningArtifactCreate sim_sc ?dA ?sA =
      create_finish sim_sc ?dA
        (?s1A\<lparr>sc_calls := sc_calls ?s1A @ [CallCreateProvisioningArtifact ?ciA],
              sc_world := ?w2, var_output := ?out\<rparr>)"
    using direct_attempt_only_after_timeout[where env = sim_sc and s = ?sA and token = "''terraform-1''"
        and ?w0.0 = ?w0A and d = ?dA and terr = "Some (TimeoutError None)" and ?s1.0 = ?s1A
        and out = ?out and e = None and ?w2.0 = ?w2,
        THEN conjunct1, THEN mp, OF conjI[OF a1 conjI[OF a2 a3]]] to
    by simp

  \<comment> \<open>create, the budget spent on retryable errors\<close>
  let ?dB = "sim_pa\<lparr>pa_id := [], pa_is_new := True\<rparr>"
  let ?sB = "sim_sc_state [(None, Some sim_profile_missing), (None, Some sim_profile_missing)] False False"
  let ?w0B = "\<lparr>create_script = [(None, Some sim_profile_missing), (None, Some sim_profile_missing)],
               artifact_present = False, update_refused = False\<rparr>"
  let ?ciB = "createInput sim_sc ?dB ''terraform-1''"
  let ?s1B = "\<lparr>sc_calls = [CallCreateProvisioningArtifact ?ciB, CallCreateProvisioningArtifact ?ciB],
               sc_world = ?w0A, var_output = None\<rparr> :: (sim_sc_world, pa_parameters) sc_state"
  have b1: "UniqueId sim_sc (sc_world ?sB) = (''terraform-1'', ?w0B)"
    by (simp add: sim_sc_def sim_sc_state_def)
  have b2: "RetryContext sim_sc (pa_timeout_create ?dB) (create_closure sim_sc ?ciB)
              (?sB\<lparr>sc_world := ?w0B, var_output := None\<rparr>) = (Some sim_profile_missing, ?s1B)"
    using pm
    by (simp add: sim_sc_def sim_pa_def sim_sc_state_def create_closure_def create_direct_def
          callCreateProvisioningArtifact_def classify_def ErrMessageContains_def
          sim_profile_missing_def sim_RetryContext_def)
  have b3: "CreateProvisioningArtifactWithContext sim_sc ?ciB (sc_world ?s1B) = ((?out, None), ?w2)"
    by (simp add: sim_sc_def)
  have B: "resourceProvisioningArtifactCreate sim_sc ?dB ?sB =
      Inr ([ErrorDiag (''creating Service Catalog Provisioning Artifact: '' @ Error sim_profile_missing)],
           ?dB, ?s1B)"
    using direct_attempt_only_after_timeout[where env = sim_sc and s = ?sB and token = "''terraform-1''"
        and ?w0.0 = ?w0B and d = ?dB and terr = "Some sim_profile_missing" and ?s1.0 = ?s1B
        and out = ?out and e = None and ?w2.0 = ?w2,
        THEN conjunct1, THEN mp, OF conjI[OF b1 conjI[OF b2 b3]]] nto
    by simp

  \<comment> \<open>update, no attempt returned within the budget\<close>
  let ?dC = "sim_pa\<lparr>pa_plan := sim_pa_config\<lparr>pa_description := ''second''\<rparr>, pa_timeout_update := 0\<rparr>"
  let ?sC = "sim_sc_state [] True True"
  let ?uiC = "updateInput ?dC ''pa-1'' ''prod-1''"
  let ?wU = "\<lparr>create_script = [], artifact_present = True, update_refused = True\<rparr>"
  have c1: "HasChanges ?dC [K_accept_language, K_active, K_description, K_guidance, K_name, K_product_id]"
    by (simp add: HasChanges_def HasChange_def sim_pa_def sim_pa_config_def)
  have c2: "ProvisioningArtifactParseID sim_sc (pa_id ?dC) = Inr (''pa-1'', ''prod-1'')"
    by (simp add: sim_sc_def sim_pa_def sp)
  have c3: "RetryContext sim_sc (pa_timeout_update ?dC) (update_closure sim_sc ?uiC) ?sC =
              (Some (TimeoutError None), ?sC)"
    by (simp add: sim_sc_def sim_pa_def sim_RetryContext_def)
  have c4: "UpdateProvisioningArtifactWithContext sim_sc ?uiC (sc_world ?sC) =
              (Some sim_profile_missing, ?wU)"
    by (simp add: sim_sc_def sim_sc_state_def)
  have C: "resourceProvisioningArtifactUpdate sim_sc ?dC ?sC =
      Inr ([ErrorDiag (''updating Service Catalog Provisioning Artifact ('' @ pa_id ?dC @
                       ''): '' @ Error sim_profile_missing)], ?dC,
           ?sC\<lparr>sc_calls := sc_calls ?sC @ [CallUpdateProvisioningArtifact ?uiC], sc_world := ?wU\<rparr>)"
    using direct_attempt_only_after_timeout[where env = sim_sc and d' = ?dC and artifactID = "''pa-1''"
        and productID = "''prod-1''" and s' = ?sC and terr' = "Some (TimeoutError None)" and s1' = ?sC
        and e' = "Some sim_profile_missing" and w2' = ?wU,
        THEN conjunct2, THEN mp, OF conjI[OF c1 conjI[OF c2 conjI[OF c3 c4]]]] to
    by simp

  \<comment> \<open>update, the budget spent on retryable errors\<close>
  let ?dD = "sim_pa\<lparr>pa_plan := sim_pa_config\<lparr>pa_description := ''second''\<rparr>\<rparr>"
  let ?uiD = "updateInput ?dD ''pa-1'' ''prod-1''"
  let ?s1D = "\<lparr>sc_calls = [CallUpdateProvisioningArtifact ?uiD, CallUpdateProvisioningArtifact ?uiD],
               sc_world = ?wU, var_output = None\<rparr> :: (sim_sc_world, pa_parameters) sc_state"
  have d1: "HasChanges ?dD [K_accept_language, K_active, K_description, K_guidance, K_name, K_product_id]"
    by (simp add: HasChanges_def HasChange_def sim_pa_def sim_pa_config_def)
  have d2: "ProvisioningArtifactParseID sim_sc (pa_id ?dD) = Inr (''pa-1'', ''prod-1'')"
    by (simp add: sim_sc_def sim_pa_def sp)
  have d3: "RetryContext sim_sc (pa_timeout_update ?dD) (update_closure sim_sc ?uiD) ?sC =
              (Some sim_profile_missing, ?s1D)"
    using pm
    by (simp add: sim_sc_def sim_pa_def sim_sc_state_def update_closure_def
          callUpdateProvisioningArtifact_def classify_def ErrMessageContains_def
          sim_profile_missing_def sim_RetryContext_def)
  have d4: "UpdateProvisioningArtifactWithContext sim_sc ?uiD (sc_world ?s1D) =
              (Some sim_profile_missing, ?wU)"
    by (simp add: sim_sc_def)
  have D: "resourceProvisioningArtifactUpdate sim_sc ?dD ?sC =
      Inr ([ErrorDiag (''updating Service Catalog Provisioning Artifact ('' @ pa_id ?dD @
                       ''): '' @ Error sim_profile_missing)], ?dD, ?s1D)"
    using direct_attempt_only_after_timeout[where env = sim_sc and d' = ?dD and artifactID = "''pa-1''"
        and productID = "''prod-1''" and s' = ?sC and terr' = "Some sim_profile_missing" and s1' = ?s1D
        and e' = "Some sim_profile_missing" and w2' = ?wU,
        THEN conjunct2, THEN mp, OF conjI[OF d1 conjI[OF d2 conjI[OF d3 d4]]]] nto
    by simp
  have msgs:
    "''creating Service Catalog Provisioning Artifact: '' @ Error sim_profile_missing =
       ''creating Service Catalog Provisioning Artifact: InvalidParametersException: The profile does not exist yet''"
    "''updating Service Catalog Provisioning Artifact ('' @ pa_id ?dC @ ''): '' @ Error sim_profile_missing =
       ''updating Service Catalog Provisioning Artifact (pa-1:prod-1): InvalidParametersException: The profile does not exist yet''"
    "''updating Service Catalog Provisioning Artifact ('' @ pa_id ?dD @ ''): '' @ Error sim_profile_missing =
       ''updating Service Catalog Provisioning Artifact (pa-1:prod-1): InvalidParametersException: The profile does not exist yet''"
    by (simp_all add: sim_pa_def sim_profile_missing_def)
  show ?thesis
    unfolding A B C D msgs
    by (simp add: numeral_2_eq_2 sim_sc_state_def)
qed

text \<open>
  The claim as first stated fails when the budget is spent on retryable errors: the
  executor then returns the last retryable error, which \<open>TimedOut\<close> does not accept.
  With a budget of two attempts and a remote service that keeps answering "profile does
  not exist", create and update each issue two calls and no third, and report that
  error.
\<close>

theorem retry_budget_spent_counterexample:
  "resourceProvisioningArtifactCreate sim_sc (sim_pa\<lparr>pa_id := [], pa_is_new := True\<rparr>)
     (sim_sc_state [(None, Some sim_profile_missing), (None, Some sim_profile_missing)] False False) =
   Inr ([ErrorDiag ''creating Service Catalog Provisioning Artifact: InvalidParametersException: The profile does not exist yet''],
        sim_pa\<lparr>pa_id := [], pa_is_new := True\<rparr>,
        \<lparr>sc_calls = [CallCreateProvisioningArtifact
                       (createInput sim_sc (sim_pa\<lparr>pa_id := [], pa_is_new := True\<rparr>) ''terraform-1''),
                    CallCreateProvisioningArtifact
                       (createInput sim_sc (sim_pa\<lparr>pa_id := [], pa_is_new := True\<rparr>) ''terraform-1'')],
         sc_world = \<lparr>create_script = [], artifact_present = False, update_refused = False\<rparr>,
         var_output = None\<rparr>) \<and>
   pa_timeout_create (sim_pa\<lparr>pa_id := [], pa_is_new := True\<rparr>) = Suc (Suc 0) \<and>
   resourceProvisioningArtifactUpdate sim_sc
     (sim_pa\<lparr>pa_plan := sim_pa_config\<lparr>pa_description := ''second''\<rparr>\<rparr>)
     (sim_sc_state [] True True) =
   Inr ([ErrorDiag ''updating Service Catalog Provisioning Artifact (pa-1:prod-1): InvalidParametersException: The profile does not exist yet''],
        sim_pa\<lparr>pa_plan := sim_pa_config\<lparr>pa_description := ''second''\<rparr>\<rparr>,
        \<lparr>sc_calls = [CallUpdateProvisioningArtifact
                       (updateInput (sim_pa\<lparr>pa_plan := sim_pa_config\<lparr>pa_description := ''second''\<rparr>\<rparr>)
                          ''pa-1'' ''prod-1''),
                    CallUpdateProvisioningArtifact
                       (updateInput (sim_pa\<lparr>pa_plan := sim_pa_config\<lparr>pa_description := ''second''\<rparr>\<rparr>)
                          ''pa-1'' ''prod-1'')],
         sc_world = \<lparr>create_script = [], artifact_present = True, update_refused = True\<rparr>,
         var_output = None\<rparr>) \<and>
   pa_timeout_update (sim_pa\<lparr>pa_plan := sim_pa_config\<lparr>pa_description := ''second''\<rparr>\<rparr>) = Suc (Suc 0)"
proof -
  let ?d = "sim_pa\<lparr>pa_id := [], pa_is_new := True\<rparr>"
  let ?s = "sim_sc_state [(None, Some sim_profile_missing), (None, Some sim_profile_missing)] False False"
  let ?ci = "createInput sim_sc ?d ''terraform-1''"
  let ?s1 = "\<lparr>sc_calls = [CallCreateProvisioningArtifact ?ci, CallCreateProvisioningArtifact ?ci],
              sc_world = \<lparr>create_script = [], artifact_present = False, update_refused = False\<rparr>,
              var_output = None\<rparr> :: (sim_sc_world, pa_parameters) sc_state"
  have pm: "Contains ''The profile does not exist yet'' ''profile does not exist''"
    by simp
  have att: "create_attempts sim_sc ?d ?s = (Some sim_profile_missing, ?s1)"
    using pm
    by (simp add: create_attempts_def sim_sc_def sim_pa_def sim_sc_state_def create_closure_def
          create_direct_def callCreateProvisioningArtifact_def classify_def ErrMessageContains_def
          sim_profile_missing_def sim_RetryContext_def sim_TimedOut_def Let_def)
  have A: "resourceProvisioningArtifactCreate sim_sc ?d ?s =
     Inr ([ErrorDiag ''creating Service Catalog Provisioning Artifact: InvalidParametersException: The profile does not exist yet''],
          ?d, ?s1)"
    unfolding resourceProvisioningArtifactCreate_def att
    by (simp add: AppendErrorf_def sim_profile_missing_def)
  let ?d' = "sim_pa\<lparr>pa_plan := sim_pa_config\<lparr>pa_description := ''second''\<rparr>\<rparr>"
  let ?s' = "sim_sc_state [] True True"
  let ?ui = "updateInput ?d' ''pa-1'' ''prod-1''"
  let ?s1' = "\<lparr>sc_calls = [CallUpdateProvisioningArtifact ?ui, CallUpdateProvisioningArtifact ?ui],
               sc_world = \<lparr>create_script = [], artifact_present = True, update_refused = True\<rparr>,
               var_output = None\<rparr> :: (sim_sc_world, pa_parameters) sc_state"
  have sp: "Split ''pa-1:prod-1'' (CHR '':'') = [''pa-1'', ''prod-1'']" by simp
  have u1: "HasChanges ?d' [K_accept_language, K_active, K_description, K_guidance, K_name, K_product_id]"
    by (simp add: HasChanges_def HasChange_def sim_pa_def sim_pa_config_def)
  have u2: "ProvisioningArtifactParseID sim_sc (pa_id ?d') = Inr (''pa-1'', ''prod-1'')"
    by (simp add: sim_sc_def sim_pa_def sp)
  have u3: "RetryContext sim_sc (pa_timeout_update ?d') (update_closure sim_sc ?ui) ?s' =
              (Some sim_profile_missing, ?s1')"
    using pm
    by (simp add: sim_sc_def sim_pa_def sim_sc_state_def update_closure_def
          callUpdateProvisioningArtifact_def classify_def ErrMessageContains_def
          sim_profile_missing_def sim_RetryContext_def)
  have u4: "\<not> TimedOut sim_sc (Some sim_profile_missing)"
    by (simp add: sim_sc_def sim_TimedOut_def sim_profile_missing_def)
  have B: "resourceProvisioningArtifactUpdate sim_sc ?d' ?s' =
     Inr ([ErrorDiag ''updating Service Catalog Provisioning Artifact (pa-1:prod-1): InvalidParametersException: The profile does not exist yet''],
          ?d', ?s1')"
    using update_not_timed_out[OF u1 u2 u3 u4]
    by (simp add: sim_profile_missing_def sim_pa_def)
  show ?thesis using A B by (simp add: sim_pa_def)
qed

section \<open>Service Catalog: the empty response\<close>

lemma create_finish_empty:
  assumes "case var_output s of
             None \<Rightarrow> True
           | Some out \<Rightarrow> (case cpo_ProvisioningArtifactDetail out of
                           None \<Rightarrow> True
                         | Some pad \<Rightarrow> pad_Id pad = None)"
  shows "create_finish env d s =
           Inr ([ErrorDiag ''creating Service Catalog Provisioning Artifact: empty response''], d, s)"
  using assms
  by (auto simp: create_finish_def Let_def and_then_def or_else_def deref_def AppendErrorf_def
        split: option.splits)

lemma read_no_panic: "resourceProvisioningArtifactRead env d s \<noteq> Inl p"
  by (auto simp: resourceProvisioningArtifactRead_def Let_def and_then_def or_else_def deref_def
        split: sum.splits prod.splits option.splits if_splits)

lemma update_no_panic: "resourceProvisioningArtifactUpdate env d s \<noteq> Inl p"
  using read_no_panic
  by (auto simp: resourceProvisioningArtifactUpdate_def Let_def and_then_def
        split: sum.splits prod.splits option.splits if_splits)

lemma create_finish_no_panic: "create_finish env d s \<noteq> Inl p"
  using update_no_panic
  by (auto simp: create_finish_def Let_def and_then_def or_else_def deref_def
        split: sum.splits prod.splits option.splits if_splits)

lemma create_no_panic: "resourceProvisioningArtifactCreate env d s \<noteq> Inl p"
  using create_finish_no_panic
  by (auto simp: resourceProvisioningArtifactCreate_def Let_def split: prod.splits option.splits)

text \<open>
  Claim C10. When the create phase ends without an error but the response it left is
  nil, or has no \<open>ProvisioningArtifactDetail\<close>, or that detail has no \<open>Id\<close>, create
  returns the "empty response" error with the resource data unchanged (no identifier
  set) and issues no further call. The result is a value, not a panic: the check stops
  at the first nil pointer and never reads through it.
\<close>

theorem create_empty_response:
  assumes "create_attempts env d s = (None, s2)"
    and "case var_output s2 of
           None \<Rightarrow> True
         | Some out \<Rightarrow> (case cpo_ProvisioningArtifactDetail out of
                         None \<Rightarrow> True
                       | Some pad \<Rightarrow> pad_Id pad = None)"
  shows "resourceProvisioningArtifactCreate env d s =
           Inr ([ErrorDiag ''creating Service Catalog Provisioning Artifact: empty response''], d, s2)"
  using assms by (simp add: resourceProvisioningArtifactCreate_def create_finish_empty)

theorem create_empty_response_witness:
  "resourceProvisioningArtifactCreate sim_sc (sim_pa\<lparr>pa_id := [], pa_is_new := True\<rparr>)
     (sim_sc_state
        [(Some \<lparr>cpo_ProvisioningArtifactDetail = Some (sim_detail\<lparr>pad_Id := None\<rparr>)\<rparr>, None)]
        False False) =
   Inr ([ErrorDiag ''creating Service Catalog Provisioning Artifact: empty response''],
        sim_pa\<lparr>pa_id := [], pa_is_new := True\<rparr>,
        \<lparr>sc_calls = [CallCreateProvisioningArtifact
                      (createInput sim_sc (sim_pa\<lparr>pa_id := [], pa_is_new := True\<rparr>) ''terraform-1'')],
         sc_world = \<lparr>create_script = [], artifact_present = True, update_refused = False\<rparr>,
         var_output = Some \<lparr>cpo_ProvisioningArtifactDetail = Some (sim_detail\<lparr>pad_Id := None\<rparr>)\<rparr>\<rparr>)"
proof -
  let ?d = "sim_pa\<lparr>pa_id := [], pa_is_new := True\<rparr>"
  let ?out = "Some \<lparr>cpo_ProvisioningArtifactDetail = Some (sim_detail\<lparr>pad_Id := None\<rparr>)\<rparr>"
  let ?s = "sim_sc_state [(?out, None)] False False"
  let ?s2 = "\<lparr>sc_calls = [CallCreateProvisioningArtifact (createInput sim_sc ?d ''terraform-1'')],
              sc_world = \<lparr>create_script = [], artifact_present = True, update_refused = False\<rparr>,
              var_output = ?out\<rparr> :: (sim_sc_world, pa_parameters) sc_state"
  have h1: "create_attempts sim_sc ?d ?s = (None, ?s2)"
    by (simp add: create_attempts_def sim_sc_def sim_pa_def sim_sc_state_def create_closure_def
          create_direct_def callCreateProvisioningArtifact_def classify_def ErrMessageContains_def
          sim_TimedOut_def sim_RetryContext_def)
  have h2: "case var_output ?s2 of
           None \<Rightarrow> True
         | Some out \<Rightarrow> (case cpo_ProvisioningArtifactDetail out of
                         None \<Rightarrow> True
                       | Some pad \<Rightarrow> pad_Id pad = None)"
    by simp
  from create_empty_response[OF h1 h2] show ?thesis .
qed

section \<open>Which update requests are issued\<close>

lemma read_update_calls:
  "resourceProvisioningArtifactRead env d s = Inr (diags, d', s') \<Longrightarrow>
     filter is_update_call (sc_calls s') = filter is_update_call (sc_calls s)"
  by (auto simp: resourceProvisioningArtifactRead_def Let_def and_then_def or_else_def deref_def
        callWaitProvisioningArtifactReady_def
        split: sum.splits prod.splits option.splits if_splits)

lemma update_unchanged:
  "\<not> HasChanges d [K_accept_language, K_active, K_description, K_guidance, K_name, K_product_id] \<Longrightarrow>
     resourceProvisioningArtifactUpdate env d s = resourceProvisioningArtifactRead env d s"
  by (simp add: resourceProvisioningArtifactUpdate_def and_then_Inr)

lemma update_first_attempt:
  assumes "HasChanges d [K_accept_language, K_active, K_description, K_guidance, K_name, K_product_id]"
    and "ProvisioningArtifactParseID env (pa_id d) = Inr (artifactID, productID)"
    and "RetryContext env (pa_timeout_update d)
           (update_closure env (updateInput d artifactID productID)) s =
         (None, snd (update_closure env (updateInput d artifactID productID) s))"
    and "\<not> TimedOut env None"
    and "resourceProvisioningArtifactUpdate env d s = Inr (diags, d', s')"
  shows "filter is_update_call (sc_calls s') =
           filter is_update_call (sc_calls s) @
             [CallUpdateProvisioningArtifact
                \<lparr>upi_AcceptLanguage = GetOk_String (pa_accept_language (pa_plan d)),
                 upi_Active = Some (pa_active (pa_plan d)),
                 upi_Description = GetOk_String (pa_description (pa_plan d)),
                 upi_Guidance = GetOk_String (pa_guidance (pa_plan d)),
                 upi_Name = GetOk_String (pa_name (pa_plan d)),
                 upi_ProductId = Some productID,
                 upi_ProvisioningArtifactId = Some artifactID\<rparr>]"
proof -
  let ?s1 = "snd (update_closure env (updateInput d artifactID productID) s)"
  have c1: "sc_calls ?s1 = sc_calls s @ [CallUpdateProvisioningArtifact (updateInput d artifactID productID)]"
    by (simp add: update_closure_def callUpdateProvisioningArtifact_def split: prod.splits)
  have "resourceProvisioningArtifactUpdate env d s = resourceProvisioningArtifactRead env d ?s1"
    using assms(1-4) by (simp add: resourceProvisioningArtifactUpdate_def and_then_Inr)
  with assms(5) have "resourceProvisioningArtifactRead env d ?s1 = Inr (diags, d', s')" by simp
  from read_update_calls[OF this] c1 show ?thesis
    by (simp add: updateInput_def)
qed

lemma method_response_update_calls:
  "filter is_update_method_response
     (ag_calls (snd (snd (resourceMethodResponseUpdate env d s)))) =
   filter is_update_method_response (ag_calls s) @
     [CallUpdateMethodResponse
        \<lparr>upd_HttpMethod = Some (http_method (mr_plan d)),
         upd_ResourceId = Some (resource_id (mr_plan d)),
         upd_RestApiId = Some (rest_api_id (mr_plan d)),
         upd_StatusCode = Some (status_code (mr_plan d)),
         upd_PatchOperations =
           (if HasChange_response_models d
            then expandRequestResponseModelOperations env d ''response_models'' ''responseModels''
            else []) @
           (if HasChange_response_parameters d
            then expandMethodParametersOperations env d ''response_parameters'' ''responseParameters''
            else [])\<rparr>]"
proof -
  have rd: "ag_calls (snd (snd (resourceMethodResponseRead env d x))) =
              ag_calls x @ [CallGetMethodResponse
                 \<lparr>get_HttpMethod = Some (http_method (mr_plan d)),
                  get_ResourceId = Some (resource_id (mr_plan d)),
                  get_RestApiId = Some (rest_api_id (mr_plan d)),
                  get_StatusCode = Some (status_code (mr_plan d))\<rparr>]" for x
    by (simp add: resourceMethodResponseRead_def Let_def callGetMethodResponse_def
          split: prod.splits sum.splits)
  have ops: "update_operations env d =
           (if HasChange_response_models d
            then expandRequestResponseModelOperations env d ''response_models'' ''responseModels''
            else []) @
           (if HasChange_response_parameters d
            then expandMethodParametersOperations env d ''response_parameters'' ''responseParameters''
            else [])"
    by (simp add: update_operations_def Let_def)
  obtain r w' where u: "UpdateMethodResponseWithContext env
        \<lparr>upd_HttpMethod = Some (http_method (mr_plan d)),
         upd_ResourceId = Some (resource_id (mr_plan d)),
         upd_RestApiId = Some (rest_api_id (mr_plan d)),
         upd_StatusCode = Some (status_code (mr_plan d)),
         upd_PatchOperations = update_operations env d\<rparr> (ag_world s) = (r, w')"
    by (meson surj_pair)
  show ?thesis
  proof (cases r)
    case None
    then show ?thesis
      using u rd[of "\<lparr>ag_calls = ag_calls s @ [CallUpdateMethodResponse
        \<lparr>upd_HttpMethod = Some (http_method (mr_plan d)),
         upd_ResourceId = Some (resource_id (mr_plan d)),
         upd_RestApiId = Some (rest_api_id (mr_plan d)),
         upd_StatusCode = Some (status_code (mr_plan d)),
         upd_PatchOperations = update_operations env d\<rparr>], ag_world = w'\<rparr>"]
      unfolding ops[symmetric]
      by (simp add: resourceMethodResponseUpdate_def Let_def callUpdateMethodResponse_def
            split: prod.splits)
  next
    case (Some e)
    then show ?thesis
      using u unfolding ops[symmetric]
      by (simp add: resourceMethodResponseUpdate_def Let_def callUpdateMethodResponse_def)
  qed
qed

text \<open>
  Claim C8, as amended. The provisioning artifact's update issues no remote update call
  when none of its six updatable attributes changed (it only reads). When one changed
  and the retry executor's first attempt succeeds, it issues one update request, which
  carries \<open>Active\<close> always and each of \<open>AcceptLanguage\<close>, \<open>Description\<close>, \<open>Guidance\<close>
  and \<open>Name\<close> that is set, whether or not that attribute changed. The method
  response's update always issues exactly one remote update call; its patch operations
  are those of the changed maps among \<open>response_models\<close> and \<open>response_parameters\<close>,
  none when neither changed.
\<close>

theorem update_requests:
  "(\<not> HasChanges d [K_accept_language, K_active, K_description, K_guidance, K_name, K_product_id] \<longrightarrow>
      resourceProvisioningArtifactUpdate env d s = resourceProvisioningArtifactRead env d s \<and>
      (\<forall>diags d' s'. resourceProvisioningArtifactUpdate env d s = Inr (diags, d', s') \<longrightarrow>
         filter is_update_call (sc_calls s') = filter is_update_call (sc_calls s))) \<and>
   (HasChanges d [K_accept_language, K_active, K_description, K_guidance, K_name, K_product_id] \<and>
    ProvisioningArtifactParseID env (pa_id d) = Inr (artifactID, productID) \<and>
    RetryContext env (pa_timeout_update d)
      (update_closure env (updateInput d artifactID productID)) s =
      (None, snd (update_closure env (updateInput d artifactID productID) s)) \<and>
    \<not> TimedOut env None \<longrightarrow>
      (\<forall>diags d' s'. resourceProvisioningArtifactUpdate env d s = Inr (diags, d', s') \<longrightarrow>
         filter is_update_call (sc_calls s') =
           filter is_update_call (sc_calls s) @
             [CallUpdateProvisioningArtifact
                \<lparr>upi_AcceptLanguage = GetOk_String (pa_accept_language (pa_plan d)),
                 upi_Active = Some (pa_active (pa_plan d)),
                 upi_Description = GetOk_String (pa_description (pa_plan d)),
                 upi_Guidance = GetOk_String (pa_guidance (pa_plan d)),
                 upi_Name = GetOk_String (pa_name (pa_plan d)),
                 upi_ProductId = Some productID,
                 upi_ProvisioningArtifactId = Some artifactID\<rparr>])) \<and>
   filter is_update_method_response
     (ag_calls (snd (snd (resourceMethodResponseUpdate genv m t)))) =
   filter is_update_method_response (ag_calls t) @
     [CallUpdateMethodResponse
        \<lparr>upd_HttpMethod = Some (http_method (mr_plan m)),
         upd_ResourceId = Some (resource_id (mr_plan m)),
         upd_RestApiId = Some (rest_api_id (mr_plan m)),
         upd_StatusCode = Some (status_code (mr_plan m)),
         upd_PatchOperations =
           (if HasChange_response_models m
            then expandRequestResponseModelOperations genv m ''response_models'' ''responseModels''
            else []) @
           (if HasChange_response_parameters m
            then expandMethodParametersOperations genv m ''response_parameters'' ''responseParameters''
            else [])\<rparr>]"
proof -
  have a: "\<not> HasChanges d [K_accept_language, K_active, K_description, K_guidance, K_name, K_product_id] \<longrightarrow>
      resourceProvisioningArtifactUpdate env d s = resourceProvisioningArtifactRead env d s \<and>
      (\<forall>diags d' s'. resourceProvisioningArtifactUpdate env d s = Inr (diags, d', s') \<longrightarrow>
         filter is_update_call (sc_calls s') = filter is_update_call (sc_calls s))"
    using read_update_calls[of env d s] by (simp add: update_unchanged)
  show ?thesis
    apply (intro conjI)
      apply (rule a)
     apply (intro impI allI)
     apply (elim conjE)
     apply (erule (4) update_first_attempt)
    apply (rule method_response_update_calls)
    done
qed

theorem update_requests_witness:
  "filter is_update_call
     (sc_calls_of (resourceProvisioningArtifactUpdate sim_sc sim_pa (sim_sc_state [] True False))) = [] \<and>
   filter is_update_call
     (sc_calls_of (resourceProvisioningArtifactUpdate sim_sc
                     (sim_pa\<lparr>pa_plan := sim_pa_config\<lparr>pa_description := ''second''\<rparr>\<rparr>)
                     (sim_sc_state [] True False))) =
     [CallUpdateProvisioningArtifact
        \<lparr>upi_AcceptLanguage = Some ''en'', upi_Active = Some True, upi_Description = Some ''second'',
         upi_Guidance = Some ''DEFAULT'', upi_Name = Some ''v1'', upi_ProductId = Some ''prod-1'',
         upi_ProvisioningArtifactId = Some ''pa-1''\<rparr>] \<and>
   filter is_update_method_response
     (ag_calls (snd (snd (resourceMethodResponseUpdate sim_ag
                            (sim_mr\<lparr>mr_plan := sim_mr_config\<lparr>response_models := []\<rparr>\<rparr>)
                            \<lparr>ag_calls = [], ag_world = True\<rparr>)))) =
     [CallUpdateMethodResponse
        \<lparr>upd_HttpMethod = Some ''GET'', upd_ResourceId = Some ''res1'', upd_RestApiId = Some ''api1'',
         upd_StatusCode = Some ''200'',
         upd_PatchOperations =
           [\<lparr>po_Op = Some ''replace'', po_Path = Some ''/responseModels'', po_Value = None\<rparr>]\<rparr>]"
proof -
  let ?s = "sim_sc_state [] True False"
  let ?d = "sim_pa\<lparr>pa_plan := sim_pa_config\<lparr>pa_description := ''second''\<rparr>\<rparr>"
  let ?m = "sim_mr\<lparr>mr_plan := sim_mr_config\<lparr>response_models := []\<rparr>\<rparr>"
  let ?t = "\<lparr>ag_calls = [], ag_world = True\<rparr>"
  have sp: "Split ''pa-1:prod-1'' (CHR '':'') = [''pa-1'', ''prod-1'']" by simp
  have n1: "\<not> HasChanges sim_pa [K_accept_language, K_active, K_description, K_guidance, K_name, K_product_id]"
    by (simp add: HasChanges_def HasChange_def sim_pa_def)
  have u1: "HasChanges ?d [K_accept_language, K_active, K_description, K_guidance, K_name, K_product_id]"
    by (simp add: HasChanges_def HasChange_def sim_pa_def sim_pa_config_def)
  have u2: "ProvisioningArtifactParseID sim_sc (pa_id ?d) = Inr (''pa-1'', ''prod-1'')"
    by (simp add: sim_sc_def sim_pa_def sp)
  have u3: "RetryContext sim_sc (pa_timeout_update ?d)
              (update_closure sim_sc (updateInput ?d ''pa-1'' ''prod-1'')) ?s =
            (None, snd (update_closure sim_sc (updateInput ?d ''pa-1'' ''prod-1'') ?s))"
    by (simp add: sim_sc_def sim_pa_def sim_sc_state_def update_closure_def
          callUpdateProvisioningArtifact_def classify_def ErrMessageContains_def
          sim_RetryContext_def)
  have u4: "\<not> TimedOut sim_sc None"
    by (simp add: sim_sc_def sim_TimedOut_def)
  obtain diags0 d0 s0 where r0: "resourceProvisioningArtifactUpdate sim_sc sim_pa ?s = Inr (diags0, d0, s0)"
    using update_no_panic[of sim_sc sim_pa ?s]
    by (cases "resourceProvisioningArtifactUpdate sim_sc sim_pa ?s") auto
  obtain diags1 d1 s1 where r1: "resourceProvisioningArtifactUpdate sim_sc ?d ?s = Inr (diags1, d1, s1)"
    using update_no_panic[of sim_sc ?d ?s]
    by (cases "resourceProvisioningArtifactUpdate sim_sc ?d ?s") auto
  have A: "filter is_update_call (sc_calls s0) = filter is_update_call (sc_calls ?s)"
    using update_requests[of sim_pa sim_sc ?s, THEN conjunct1, THEN mp, OF n1] r0 by blast
  have B: "filter is_update_call (sc_calls s1) =
           filter is_update_call (sc_calls ?s) @
             [CallUpdateProvisioningArtifact
                \<lparr>upi_AcceptLanguage = GetOk_String (pa_accept_language (pa_plan ?d)),
                 upi_Active = Some (pa_active (pa_plan ?d)),
                 upi_Description = GetOk_String (pa_description (pa_plan ?d)),
                 upi_Guidance = GetOk_String (pa_guidance (pa_plan ?d)),
                 upi_Name = GetOk_String (pa_name (pa_plan ?d)),
                 upi_ProductId = Some ''prod-1'',
                 upi_ProvisioningArtifactId = Some ''pa-1''\<rparr>]"
    using update_requests[of ?d sim_sc ?s "''pa-1''" "''prod-1''", THEN conjunct2, THEN conjunct1, THEN mp,
            OF conjI[OF u1 conjI[OF u2 conjI[OF u3 u4]]]] r1
    by blast
  have C: "filter is_update_method_response (ag_calls (snd (snd (resourceMethodResponseUpdate sim_ag ?m ?t)))) =
     filter is_update_method_response (ag_calls ?t) @
     [CallUpdateMethodResponse
        \<lparr>upd_HttpMethod = Some (http_method (mr_plan ?m)),
         upd_ResourceId = Some (resource_id (mr_plan ?m)),
         upd_RestApiId = Some (rest_api_id (mr_plan ?m)),
         upd_StatusCode = Some (status_code (mr_plan ?m)),
         upd_PatchOperations =
           (if HasChange_response_models ?m
            then expandRequestResponseModelOperations sim_ag ?m ''response_models'' ''responseModels''
            else []) @
           (if HasChange_response_parameters ?m
            then expandMethodParametersOperations sim_ag ?m ''response_parameters'' ''responseParameters''
            else [])\<rparr>]"
    using update_requests[of sim_pa sim_sc ?s "''pa-1''" "''prod-1''" sim_ag ?m ?t,
            THEN conjunct2, THEN conjunct2] .
  have A': "filter is_update_call (sc_calls_of (resourceProvisioningArtifactUpdate sim_sc sim_pa ?s)) = []"
    unfolding r0 using A by (simp add: sc_calls_of_def sim_sc_state_def)
  have B': "filter is_update_call (sc_calls_of (resourceProvisioningArtifactUpdate sim_sc ?d ?s)) =
     [CallUpdateProvisioningArtifact
        \<lparr>upi_AcceptLanguage = Some ''en'', upi_Active = Some True, upi_Description = Some ''second'',
         upi_Guidance = Some ''DEFAULT'', upi_Name = Some ''v1'', upi_ProductId = Some ''prod-1'',
         upi_ProvisioningArtifactId = Some ''pa-1''\<rparr>]"
    unfolding r1 using B
    by (simp add: sc_calls_of_def sim_sc_state_def sim_pa_def sim_pa_config_def GetOk_String_def)
  have C': "filter is_update_method_response (ag_calls (snd (snd (resourceMethodResponseUpdate sim_ag ?m ?t)))) =
     [CallUpdateMethodResponse
        \<lparr>upd_HttpMethod = Some ''GET'', upd_ResourceId = Some ''res1'', upd_RestApiId = Some ''api1'',
         upd_StatusCode = Some ''200'',
         upd_PatchOperations =
           [\<lparr>po_Op = Some ''replace'', po_Path = Some ''/responseModels'', po_Value = None\<rparr>]\<rparr>]"
    unfolding C
    by (simp add: sim_mr_def sim_mr_config_def sim_ag_def HasChange_response_models_def
          HasChange_response_parameters_def)
  show ?thesis using A' B' C' by simp
qed

text \<open>
  The claim as first stated fails twice. With neither map changed, the method
  response's update still issues its remote update call (with no patch operation); and
  with only the description changed, the provisioning artifact's update request also
  carries the unchanged language, activity flag, guidance and name.
\<close>

theorem update_requests_counterexample:
  "\<not> HasChange_response_models sim_mr \<and> \<not> HasChange_response_parameters sim_mr \<and>
   ag_calls (snd (snd (resourceMethodResponseUpdate sim_ag sim_mr \<lparr>ag_calls = [], ag_world = True\<rparr>))) =
     [CallUpdateMethodResponse
        \<lparr>upd_HttpMethod = Some ''GET'', upd_ResourceId = Some ''res1'', upd_RestApiId = Some ''api1'',
         upd_StatusCode = Some ''200'', upd_PatchOperations = []\<rparr>,
      CallGetMethodResponse
        \<lparr>get_HttpMethod = Some ''GET'', get_ResourceId = Some ''res1'', get_RestApiId = Some ''api1'',
         get_StatusCode = Some ''200''\<rparr>] \<and>
   HasChange (sim_pa\<lparr>pa_plan := sim_pa_config\<lparr>pa_description := ''second''\<rparr>\<rparr>) K_description \<and>
   \<not> HasChange (sim_pa\<lparr>pa_plan := sim_pa_config\<lparr>pa_description := ''second''\<rparr>\<rparr>) K_accept_language \<and>
   \<not> HasChange (sim_pa\<lparr>pa_plan := sim_pa_config\<lparr>pa_description := ''second''\<rparr>\<rparr>) K_active \<and>
   \<not> HasChange (sim_pa\<lparr>pa_plan := sim_pa_config\<lparr>pa_description := ''second''\<rparr>\<rparr>) K_guidance \<and>
   \<not> HasChange (sim_pa\<lparr>pa_plan := sim_pa_config\<lparr>pa_description := ''second''\<rparr>\<rparr>) K_name \<and>
   sc_calls_of (resourceProvisioningArtifactUpdate sim_sc
                  (sim_pa\<lparr>pa_plan := sim_pa_config\<lparr>pa_description := ''second''\<rparr>\<rparr>)
                  (sim_sc_state [] True False)) =
     [CallUpdateProvisioningArtifact
        \<lparr>upi_AcceptLanguage = Some ''en'', upi_Active = Some True, upi_Description = Some ''second'',
         upi_Guidance = Some ''DEFAULT'', upi_Name = Some ''v1'', upi_ProductId = Some ''prod-1'',
         upi_ProvisioningArtifactId = Some ''pa-1''\<rparr>,
      CallWaitProvisioningArtifactReady ''pa-1'' ''prod-1'' (Suc (Suc 0))]"
proof -
  have sp: "Split ''pa-1:prod-1'' (CHR '':'') = [''pa-1'', ''prod-1'']" by simp
  have mr: "ag_calls (snd (snd (resourceMethodResponseUpdate sim_ag sim_mr \<lparr>ag_calls = [], ag_world = True\<rparr>))) =
     [CallUpdateMethodResponse
        \<lparr>upd_HttpMethod = Some ''GET'', upd_ResourceId = Some ''res1'', upd_RestApiId = Some ''api1'',
         upd_StatusCode = Some ''200'', upd_PatchOperations = []\<rparr>,
      CallGetMethodResponse
        \<lparr>get_HttpMethod = Some ''GET'', get_ResourceId = Some ''res1'', get_RestApiId = Some ''api1'',
         get_StatusCode = Some ''200''\<rparr>]"
    by (simp add: resourceMethodResponseUpdate_def resourceMethodResponseRead_def update_operations_def
          HasChange_response_models_def HasChange_response_parameters_def sim_mr_def sim_mr_config_def
          sim_ag_def callUpdateMethodResponse_def callGetMethodResponse_def)
  have pa: "sc_calls_of (resourceProvisioningArtifactUpdate sim_sc
                  (sim_pa\<lparr>pa_plan := sim_pa_config\<lparr>pa_description := ''second''\<rparr>\<rparr>)
                  (sim_sc_state [] True False)) =
     [CallUpdateProvisioningArtifact
        \<lparr>upi_AcceptLanguage = Some ''en'', upi_Active = Some True, upi_Description = Some ''second'',
         upi_Guidance = Some ''DEFAULT'', upi_Name = Some ''v1'', upi_ProductId = Some ''prod-1'',
         upi_ProvisioningArtifactId = Some ''pa-1''\<rparr>,
      CallWaitProvisioningArtifactReady ''pa-1'' ''prod-1'' (Suc (Suc 0))]"
    by (simp add: sc_calls_of_def resourceProvisioningArtifactUpdate_def
          resourceProvisioningArtifactRead_def sc_run_defs sp and_then_def or_else_def deref_def)
  show ?thesis
    using mr pa
    by (simp add: HasChange_response_models_def HasChange_response_parameters_def HasChange_def
          sim_mr_def sim_pa_def sim_pa_config_def)
qed

section \<open>API Gateway: the import identifier\<close>

lemma Split_nonempty: "Split s sep \<noteq> []"
  by (induction s) (auto split: list.splits)

lemma Split_no_sep: "sep \<notin> set s \<Longrightarrow> Split s sep = [s]"
  by (induction s) auto

lemma Split_append: "sep \<notin> set a \<Longrightarrow> Split (a @ sep # r) sep = a # Split r sep"
  by (induction a) auto

lemma length4:
  "length xs = 4 \<Longrightarrow> \<exists>a b c e. xs = [a, b, c, e]"
  by (cases xs; simp; (cases "tl xs"; simp; (cases "tl (tl xs)"; simp; (cases "tl (tl (tl xs))"; simp))))

text \<open>
  Claim C7. The importer splits the identifier at "/" and expects four components. It
  fails with its unexpected-format error when the number of components is not four or
  a component is empty; otherwise it succeeds, and the four attributes it sets are the
  components, in order.
\<close>

theorem import_decode:
  "(length (Split (mr_id d) (CHR ''/'')) \<noteq> 4 \<or> [] \<in> set (Split (mr_id d) (CHR ''/'')) \<longrightarrow>
      StateContext env d =
        Inl (PlainErr (''Unexpected format of ID ('' @ Quote env (mr_id d) @
                       ''), expected REST-API-ID/RESOURCE-ID/HTTP-METHOD/STATUS-CODE''))) \<and>
   (length (Split (mr_id d) (CHR ''/'')) = 4 \<and> [] \<notin> set (Split (mr_id d) (CHR ''/'')) \<longrightarrow>
      (\<exists>d'. StateContext env d = Inr [d'] \<and>
            [rest_api_id (mr_plan d'), resource_id (mr_plan d'),
             http_method (mr_plan d'), status_code (mr_plan d')] = Split (mr_id d) (CHR ''/'')))"
proof (cases "length (Split (mr_id d) (CHR ''/'')) = 4")
  case False
  then show ?thesis by (simp add: StateContext_def)
next
  case True
  then obtain a b c e where parts: "Split (mr_id d) (CHR ''/'') = [a, b, c, e]"
    using length4 by blast
  show ?thesis using parts by (auto simp: StateContext_def Let_def)
qed

theorem import_decode_witness:
  "StateContext sim_ag (sim_mr\<lparr>mr_id := ''api1//GET/200''\<rparr>) =
     Inl (PlainErr (''Unexpected format of ID ('' @ CHR 0x22 # ''api1//GET/200'' @ CHR 0x22 #
                    ''), expected REST-API-ID/RESOURCE-ID/HTTP-METHOD/STATUS-CODE'')) \<and>
   (\<exists>d'. StateContext sim_ag (sim_mr\<lparr>mr_id := ''api1/res1/GET/200''\<rparr>) = Inr [d'] \<and>
         [rest_api_id (mr_plan d'), resource_id (mr_plan d'),
          http_method (mr_plan d'), status_code (mr_plan d')] = [''api1'', ''res1'', ''GET'', ''200''])"
proof -
  have s1: "Split ''api1//GET/200'' (CHR ''/'') = [''api1'', [], ''GET'', ''200'']" by simp
  have s2: "Split ''api1/res1/GET/200'' (CHR ''/'') = [''api1'', ''res1'', ''GET'', ''200'']" by simp
  have a: "length (Split (mr_id (sim_mr\<lparr>mr_id := ''api1//GET/200''\<rparr>)) (CHR ''/'')) \<noteq> 4 \<or>
           [] \<in> set (Split (mr_id (sim_mr\<lparr>mr_id := ''api1//GET/200''\<rparr>)) (CHR ''/''))"
    by (simp add: s1)
  have b: "length (Split (mr_id (sim_mr\<lparr>mr_id := ''api1/res1/GET/200''\<rparr>)) (CHR ''/'')) = 4 \<and>
           [] \<notin> set (Split (mr_id (sim_mr\<lparr>mr_id := ''api1/res1/GET/200''\<rparr>)) (CHR ''/''))"
    by (simp add: s2)
  have A: "StateContext sim_ag (sim_mr\<lparr>mr_id := ''api1//GET/200''\<rparr>) =
     Inl (PlainErr (''Unexpected format of ID ('' @ CHR 0x22 # ''api1//GET/200'' @ CHR 0x22 #
                    ''), expected REST-API-ID/RESOURCE-ID/HTTP-METHOD/STATUS-CODE''))"
    using import_decode[where env = sim_ag and d = "sim_mr\<lparr>mr_id := ''api1//GET/200''\<rparr>",
            THEN conjunct1, THEN mp, OF a]
    by (simp add: sim_ag_def)
  have B: "\<exists>d'. StateContext sim_ag (sim_mr\<lparr>mr_id := ''api1/res1/GET/200''\<rparr>) = Inr [d'] \<and>
         [rest_api_id (mr_plan d'), resource_id (mr_plan d'),
          http_method (mr_plan d'), status_code (mr_plan d')] = [''api1'', ''res1'', ''GET'', ''200'']"
    using import_decode[where env = sim_ag and d = "sim_mr\<lparr>mr_id := ''api1/res1/GET/200''\<rparr>",
            THEN conjunct2, THEN mp, OF b]
    by (simp add: s2)
  show ?thesis using A B by blast
qed

section \<open>API Gateway: the stored identifier and the import identifier\<close>

lemma create_stores_agmr_id:
  "RetryWhenAWSErrCodeEquals env 120 (callPutMethodResponse env (putInput d))
     [ErrCodeConflictException env] s = (None, s1) \<Longrightarrow>
   resourceMethodResponseCreate env d s =
     ([], d\<lparr>mr_id := agmr_id (rest_api_id (mr_plan d)) (resource_id (mr_plan d))
                         (http_method (mr_plan d)) (status_code (mr_plan d))\<rparr>, s1)"
  by (simp add: resourceMethodResponseCreate_def)

text \<open>
  Claim C6, as amended. For four non-empty components free of "/", the importer decodes
  the components joined by "/" to exactly those components, and stores for them the
  "agmr-" identifier; create, run on the imported data, stores that same identifier.
  The stored "agmr-" identifier is not an encoding the importer decodes: it rejects it.
\<close>

theorem import_roundtrip:
  assumes "a \<noteq> []" and "b \<noteq> []" and "c \<noteq> []" and "e \<noteq> []"
    and "CHR ''/'' \<notin> set a \<union> set b \<union> set c \<union> set e"
  shows "StateContext env (d\<lparr>mr_id := import_id a b c e\<rparr>) =
           Inr [d\<lparr>mr_plan := (mr_plan d)\<lparr>http_method := c, status_code := e,
                                          resource_id := b, rest_api_id := a\<rparr>,
                  mr_id := agmr_id a b c e\<rparr>] \<and>
         (RetryWhenAWSErrCodeEquals env 120
            (callPutMethodResponse env
               (putInput (d\<lparr>mr_plan := (mr_plan d)\<lparr>http_method := c, status_code := e,
                                                    resource_id := b, rest_api_id := a\<rparr>\<rparr>)))
            [ErrCodeConflictException env] s = (None, s1) \<longrightarrow>
          mr_id (fst (snd (resourceMethodResponseCreate env
               (d\<lparr>mr_plan := (mr_plan d)\<lparr>http_method := c, status_code := e,
                                             resource_id := b, rest_api_id := a\<rparr>\<rparr>) s))) =
            agmr_id a b c e) \<and>
         StateContext env (d\<lparr>mr_id := agmr_id a b c e\<rparr>) =
           Inl (PlainErr (''Unexpected format of ID ('' @ Quote env (agmr_id a b c e) @
                          ''), expected REST-API-ID/RESOURCE-ID/HTTP-METHOD/STATUS-CODE''))"
proof -
  have sp: "Split (import_id a b c e) (CHR ''/'') = [a, b, c, e]"
    using assms(5) by (simp add: import_id_def Split_append Split_no_sep)
  have "CHR ''/'' \<notin> set (agmr_id a b c e)"
    using assms(5) by (simp add: agmr_id_def)
  then have sp2: "Split (agmr_id a b c e) (CHR ''/'') = [agmr_id a b c e]"
    by (rule Split_no_sep)
  have one: "StateContext env (d\<lparr>mr_id := import_id a b c e\<rparr>) =
           Inr [d\<lparr>mr_plan := (mr_plan d)\<lparr>http_method := c, status_code := e,
                                          resource_id := b, rest_api_id := a\<rparr>,
                  mr_id := agmr_id a b c e\<rparr>]"
    using sp assms(1-4) by (simp add: StateContext_def Let_def)
  have three: "StateContext env (d\<lparr>mr_id := agmr_id a b c e\<rparr>) =
           Inl (PlainErr (''Unexpected format of ID ('' @ Quote env (agmr_id a b c e) @
                          ''), expected REST-API-ID/RESOURCE-ID/HTTP-METHOD/STATUS-CODE''))"
    using sp2 by (simp add: StateContext_def Let_def)
  show ?thesis
    using one three by (auto simp: create_stores_agmr_id)
qed

theorem import_roundtrip_witness:
  "StateContext sim_ag (sim_mr\<lparr>mr_id := ''api1/res1/GET/200''\<rparr>) =
     Inr [sim_mr\<lparr>mr_id := ''agmr-api1-res1-GET-200''\<rparr>] \<and>
   resourceMethodResponseCreate sim_ag sim_mr \<lparr>ag_calls = [], ag_world = False\<rparr> =
     ([], sim_mr\<lparr>mr_id := ''agmr-api1-res1-GET-200''\<rparr>,
      \<lparr>ag_calls = [CallPutMethodResponse (putInput sim_mr)], ag_world = True\<rparr>) \<and>
   StateContext sim_ag (sim_mr\<lparr>mr_id := ''agmr-api1-res1-GET-200''\<rparr>) =
     Inl (PlainErr (''Unexpected format of ID ('' @ CHR 0x22 # ''agmr-api1-res1-GET-200'' @ CHR 0x22 #
                    ''), expected REST-API-ID/RESOURCE-ID/HTTP-METHOD/STATUS-CODE''))"
proof -
  have h: "''api1'' \<noteq> []" "''res1'' \<noteq> []" "''GET'' \<noteq> []" "''200'' \<noteq> []"
    "CHR ''/'' \<notin> set ''api1'' \<union> set ''res1'' \<union> set ''GET'' \<union> set ''200''"
    by simp_all
  have same: "sim_mr\<lparr>mr_plan := (mr_plan sim_mr)\<lparr>http_method := ''GET'', status_code := ''200'',
                  resource_id := ''res1'', rest_api_id := ''api1''\<rparr>\<rparr> = sim_mr"
    by (simp add: sim_mr_def sim_mr_config_def)
  have run: "RetryWhenAWSErrCodeEquals sim_ag 120 (callPutMethodResponse sim_ag (putInput sim_mr))
               [ErrCodeConflictException sim_ag] \<lparr>ag_calls = [], ag_world = False\<rparr> =
             (None, \<lparr>ag_calls = [CallPutMethodResponse (putInput sim_mr)], ag_world = True\<rparr>)"
    by (simp add: sim_ag_def callPutMethodResponse_def)
  note T = import_roundtrip[OF h, where d = sim_mr and env = sim_ag
             and s = "\<lparr>ag_calls = [], ag_world = False\<rparr>"
             and ?s1.0 = "\<lparr>ag_calls = [CallPutMethodResponse (putInput sim_mr)], ag_world = True\<rparr>"]
  have A: "StateContext sim_ag (sim_mr\<lparr>mr_id := ''api1/res1/GET/200''\<rparr>) =
     Inr [sim_mr\<lparr>mr_id := ''agmr-api1-res1-GET-200''\<rparr>]"
    using T[THEN conjunct1] by (simp add: import_id_def agmr_id_def sim_mr_def sim_mr_config_def)
  have C: "StateContext sim_ag (sim_mr\<lparr>mr_id := ''agmr-api1-res1-GET-200''\<rparr>) =
     Inl (PlainErr (''Unexpected format of ID ('' @ CHR 0x22 # ''agmr-api1-res1-GET-200'' @ CHR 0x22 #
                    ''), expected REST-API-ID/RESOURCE-ID/HTTP-METHOD/STATUS-CODE''))"
    using T[THEN conjunct2, THEN conjunct2] by (simp add: agmr_id_def sim_ag_def)
  have B: "resourceMethodResponseCreate sim_ag sim_mr \<lparr>ag_calls = [], ag_world = False\<rparr> =
     ([], sim_mr\<lparr>mr_id := ''agmr-api1-res1-GET-200''\<rparr>,
      \<lparr>ag_calls = [CallPutMethodResponse (putInput sim_mr)], ag_world = True\<rparr>)"
    using run by (simp add: resourceMethodResponseCreate_def agmr_id_def sim_mr_def sim_mr_config_def)
  show ?thesis using A B C by simp
qed

text \<open>
  The claim as first stated fails: the identifier create stores is joined with "-", so
  the importer, which splits at "/", finds one component and rejects it; and a
  component list with an empty component, though free of "/", does not decode either.
\<close>

theorem stored_identifier_not_decodable:
  "fst (resourceMethodResponseCreate sim_ag sim_mr \<lparr>ag_calls = [], ag_world = False\<rparr>) = [] \<and>
   mr_id (fst (snd (resourceMethodResponseCreate sim_ag sim_mr \<lparr>ag_calls = [], ag_world = False\<rparr>))) =
     ''agmr-api1-res1-GET-200'' \<and>
   StateContext sim_ag (fst (snd (resourceMethodResponseCreate sim_ag sim_mr
                             \<lparr>ag_calls = [], ag_world = False\<rparr>))) =
     Inl (PlainErr (''Unexpected format of ID ('' @ CHR 0x22 # ''agmr-api1-res1-GET-200'' @ CHR 0x22 #
                    ''), expected REST-API-ID/RESOURCE-ID/HTTP-METHOD/STATUS-CODE'')) \<and>
   StateContext sim_ag (sim_mr\<lparr>mr_id := import_id ''api1'' [] ''GET'' ''200''\<rparr>) =
     Inl (PlainErr (''Unexpected format of ID ('' @ CHR 0x22 # ''api1//GET/200'' @ CHR 0x22 #
                    ''), expected REST-API-ID/RESOURCE-ID/HTTP-METHOD/STATUS-CODE''))"
proof -
  have B: "resourceMethodResponseCreate sim_ag sim_mr \<lparr>ag_calls = [], ag_world = False\<rparr> =
     ([], sim_mr\<lparr>mr_id := ''agmr-api1-res1-GET-200''\<rparr>,
      \<lparr>ag_calls = [CallPutMethodResponse (putInput sim_mr)], ag_world = True\<rparr>)"
    by (simp add: resourceMethodResponseCreate_def agmr_id_def sim_mr_def sim_mr_config_def
          sim_ag_def callPutMethodResponse_def)
  have s1: "Split ''agmr-api1-res1-GET-200'' (CHR ''/'') = [''agmr-api1-res1-GET-200'']" by simp
  have s2: "Split ''api1//GET/200'' (CHR ''/'') = [''api1'', [], ''GET'', ''200'']" by simp
  show ?thesis
    unfolding B by (simp add: StateContext_def s1 s2 import_id_def sim_ag_def)
qed

end
